theory Spec2Isabelle
  imports Main
begin

section \<open>Data model of \<^verbatim>\<open>api/services/app_generate_service.py\<close>\<close>

text \<open>
  The service class \<^verbatim>\<open>AppGenerateService\<close> is embedded by explicit state passing. The state
  holds the two pieces of shared mutable state the service touches (the tenant counters of the
  system rate limiter and the per-application sets of active request tokens) and a log of the
  calls made to collaborators, in the order in which the Python code makes them. An exception
  is the \<open>Inl\<close> branch of a sum; \<open>Inr\<close> is a normal return.
\<close>

type_synonym user = string
type_synonym args = "(string \<times> string) list"
type_synonym workflow = string

text \<open>\<^verbatim>\<open>InvokeFrom\<close>: the service only tests for \<^verbatim>\<open>InvokeFrom.DEBUGGER\<close>.\<close>

datatype invoke_from = DEBUGGER | SERVICE_API | WEB_APP | EXPLORE

text \<open>
  The fields of \<^verbatim>\<open>App\<close> the service reads. \<^verbatim>\<open>max_active_requests\<close> is a nullable integer,
  \<^verbatim>\<open>mode\<close> a string compared with the \<^verbatim>\<open>AppMode\<close> values.
\<close>

record app =
  app_id :: string
  tenant_id :: string
  mode :: string
  is_agent :: bool
  max_active_requests :: "int option"

record dify_config =
  BILLING_ENABLED :: bool
  APP_DAILY_RATE_LIMIT :: int
  APP_MAX_ACTIVE_REQUESTS :: int

definition AppMode_COMPLETION :: string where
  "AppMode_COMPLETION = ''completion''"

definition AppMode_AGENT_CHAT :: string where
  "AppMode_AGENT_CHAT = ''agent-chat''"

definition AppMode_CHAT :: string where
  "AppMode_CHAT = ''chat''"

definition AppMode_ADVANCED_CHAT :: string where
  "AppMode_ADVANCED_CHAT = ''advanced-chat''"

definition AppMode_WORKFLOW :: string where
  "AppMode_WORKFLOW = ''workflow''"

text \<open>
  The exceptions the service raises, translates or lets through. \<open>RateLimitError\<close> is the
  provider's (\<^verbatim>\<open>openai._exceptions.RateLimitError\<close>) and carries its \<^verbatim>\<open>str(e)\<close>;
  \<open>InvokeRateLimitError\<close> is \<^verbatim>\<open>services.errors.llm.InvokeRateLimitError\<close>;
  \<open>AppInvokeQuotaExceededError\<close> is the governor's rejection with the application id and the
  ceiling; \<open>OtherException\<close> stands for every other subclass of \<^verbatim>\<open>Exception\<close>, told apart
  by its payload; \<open>BaseException\<close> stands for an exception that is not a subclass of
  \<^verbatim>\<open>Exception\<close> (\<^verbatim>\<open>KeyboardInterrupt\<close>, \<^verbatim>\<open>SystemExit\<close>, \<^verbatim>\<open>GeneratorExit\<close>), named by its
  payload.
\<close>

datatype exn =
    InvokeRateLimitError string
  | RateLimitError string
  | AppInvokeQuotaExceededError string int
  | ValueError string
  | OtherException string
  | BaseException string

text \<open>
  What a generation strategy produces: a mapping (blocking result) or a lazy sequence of events.
  What \<^verbatim>\<open>rate_limit.generate\<close> hands back: the mapping as it is, or the sequence bound to the
  application and the request token whose release it owes.
\<close>

datatype generation_output =
    Blocking "(string \<times> string) list"
  | EventStream "string list"

datatype response =
    Result "(string \<times> string) list"
  | RateLimitGenerator string string "string list"

datatype generator_class =
    CompletionAppGenerator
  | AgentChatAppGenerator
  | ChatAppGenerator
  | AdvancedChatAppGenerator
  | WorkflowAppGenerator

text \<open>The strategy methods the service calls, with the keyword arguments it passes.\<close>

datatype strategy_call =
    Generate app user args invoke_from bool
  | GenerateAdvancedChat app workflow user args invoke_from bool
  | GenerateWorkflow app workflow user args invoke_from bool nat "string option"
  | SingleIterationGenerate app workflow string user args bool
  | SingleLoopGenerate app workflow string user args bool
  | GenerateMoreLikeThis app string user invoke_from bool

text \<open>The log: one entry per call to a collaborator.\<close>

datatype event =
    EvGetInfo string
  | EvIsRateLimited string
  | EvIncrementRateLimit string
  | EvEnter string string
  | EvExit string string
  | EvRateLimitGenerate string string
  | EvGetDraftWorkflow string
  | EvGetPublishedWorkflow string
  | EvStrategy generator_class strategy_call

text \<open>
  The collaborators whose code is outside the service: the plan of a tenant
  (\<^verbatim>\<open>BillingService.get_info(tenant_id)["subscription"]["plan"]\<close>), the workflow service, the
  generation strategies with their conversion to the event-stream form, and the request key
  that \<^verbatim>\<open>RateLimit.gen_request_key()\<close> draws.
\<close>

record collaborators =
  billing_plan :: "string \<Rightarrow> string"
  get_draft_workflow :: "app \<Rightarrow> workflow option"
  get_published_workflow :: "app \<Rightarrow> workflow option"
  strategy :: "generator_class \<Rightarrow> strategy_call \<Rightarrow> exn + generation_output"
  convert_to_event_stream :: "generator_class \<Rightarrow> generation_output \<Rightarrow> generation_output"
  gen_request_key :: string

record tenant_window =
  window_count :: nat
  window_expires :: nat

record state =
  clock :: nat
  rate_counters :: "string \<rightharpoonup> tenant_window"
  active_requests :: "string \<Rightarrow> string set"
  trace :: "event list"

definition log_event :: "event \<Rightarrow> state \<Rightarrow> state" where
  "log_event e s = s\<lparr>trace := trace s @ [e]\<rparr>"

section \<open>Decimal rendering of an integer in an f-string\<close>

function str_nat :: "nat \<Rightarrow> string" where
  "str_nat n =
     (if n < 10 then [char_of (48 + n)]
      else str_nat (n div 10) @ [char_of (48 + n mod 10)])"
  by pat_completeness auto
termination
  by (relation "measure id") auto

declare str_nat.simps [simp del]

definition str_int :: "int \<Rightarrow> string" where
  "str_int i = (if i < 0 then CHR ''-'' # str_nat (nat (- i)) else str_nat (nat i))"

section \<open>The system rate limiter\<close>

record rate_limiter =
  prefix :: string
  max_attempts :: int
  time_window :: nat

text \<open>Line 23: the class attribute \<^verbatim>\<open>system_rate_limiter\<close>.\<close>

definition system_rate_limiter :: "dify_config \<Rightarrow> rate_limiter" where
  "system_rate_limiter cfg =
     \<lparr>prefix = ''app_daily_rate_limiter'',
      max_attempts = APP_DAILY_RATE_LIMIT cfg,
      time_window = 86400\<rparr>"

text \<open>
  Modelled from the spec: \<^verbatim>\<open>libs.helper.RateLimiter\<close> is not among the sources. The spec
  (4.1): the counter of a tenant counts the requests of the current window, an absent counter
  is zero, and a counter whose expiry has passed is treated as reset.
\<close>

definition current_count :: "state \<Rightarrow> string \<Rightarrow> nat" where
  "current_count s t =
     (case rate_counters s t of
        None \<Rightarrow> 0
      | Some w \<Rightarrow> if window_expires w \<le> clock s then 0 else window_count w)"

text \<open>
  Modelled from the spec: \<^verbatim>\<open>RateLimiter.is_rate_limited\<close> is not among the sources. The spec
  (4.1): it reads the current counter of the tenant's window and returns true if the count has
  reached the configured ceiling; it never raises.
\<close>

definition is_rate_limited :: "rate_limiter \<Rightarrow> string \<Rightarrow> state \<Rightarrow> bool \<times> state" where
  "is_rate_limited rl t s =
     (max_attempts rl \<le> int (current_count s t), log_event (EvIsRateLimited t) s)"

text \<open>
  Modelled from the spec: \<^verbatim>\<open>RateLimiter.increment_rate_limit\<close> is not among the sources. The
  spec (4.1): it increases the counter and, on the first increment in a window, sets an expiry
  one window length ahead.
\<close>

definition increment_rate_limit :: "rate_limiter \<Rightarrow> string \<Rightarrow> state \<Rightarrow> state" where
  "increment_rate_limit rl t s =
     log_event (EvIncrementRateLimit t)
       (s\<lparr>rate_counters := (rate_counters s)(t \<mapsto>
           (if current_count s t = 0
            then \<lparr>window_count = 1, window_expires = clock s + time_window rl\<rparr>
            else \<lparr>window_count = Suc (current_count s t),
                  window_expires = (case rate_counters s t of
                                      None \<Rightarrow> clock s + time_window rl
                                    | Some w \<Rightarrow> window_expires w)\<rparr>))\<rparr>)"

section \<open>The concurrency governor\<close>

record rate_limit =
  client_id :: string
  max_active :: int

definition RateLimit :: "string \<Rightarrow> int \<Rightarrow> rate_limit" where
  "RateLimit cid m = \<lparr>client_id = cid, max_active = m\<rparr>"

text \<open>
  Modelled from the spec: \<^verbatim>\<open>core.app.features.rate_limiting.RateLimit.enter\<close> is not among
  the sources. The spec (4.2): \<open>enter\<close> checks that the active set of the application is
  smaller than the effective ceiling (ceiling 0 admits unconditionally); if so it adds the
  token and returns it, otherwise it fails, carrying the application id and the ceiling.
\<close>

definition has_capacity :: "rate_limit \<Rightarrow> state \<Rightarrow> bool" where
  "has_capacity rl s =
     (max_active rl = 0 \<or> int (card (active_requests s (client_id rl))) < max_active rl)"

definition enter :: "rate_limit \<Rightarrow> string \<Rightarrow> state \<Rightarrow> (exn + string) \<times> state" where
  "enter rl request_id s =
     (let s1 = log_event (EvEnter (client_id rl) request_id) s in
      if has_capacity rl s
      then (Inr request_id,
            s1\<lparr>active_requests := (active_requests s1)
                 (client_id rl := insert request_id (active_requests s1 (client_id rl)))\<rparr>)
      else (Inl (AppInvokeQuotaExceededError (client_id rl) (max_active rl)), s1))"

text \<open>
  Modelled from the spec: \<^verbatim>\<open>RateLimit.exit\<close> is not among the sources. The spec (4.2):
  \<open>exit\<close> removes the token from the active set of the application if it is there; for an
  absent token it is a no-op. Its contract has no failure, so it returns the state only.
\<close>

definition exit :: "rate_limit \<Rightarrow> string \<Rightarrow> state \<Rightarrow> state" where
  "exit rl request_id s =
     log_event (EvExit (client_id rl) request_id)
       (s\<lparr>active_requests := (active_requests s)
            (client_id rl := active_requests s (client_id rl) - {request_id})\<rparr>)"

text \<open>
  Modelled from the spec: \<^verbatim>\<open>RateLimit.generate\<close> is not among the sources. The spec (4.3): a
  synchronous result is handed on as it is; a lazy sequence is returned bound to the token,
  and its release is deferred to the lifetime of the sequence, so the call itself leaves the
  active set as it is.
\<close>

definition rate_limit_generate ::
    "rate_limit \<Rightarrow> generation_output \<Rightarrow> string \<Rightarrow> state \<Rightarrow> response \<times> state" where
  "rate_limit_generate rl out request_id s =
     (case out of
        Blocking m \<Rightarrow> Result m
      | EventStream evs \<Rightarrow> RateLimitGenerator (client_id rl) request_id evs,
      log_event (EvRateLimitGenerate (client_id rl) request_id) s)"

section \<open>\<^verbatim>\<open>AppGenerateService\<close>\<close>

text \<open>
  Lines 131-150, \<^verbatim>\<open>_get_max_active_requests\<close>. \<^verbatim>\<open>app.max_active_requests or 0\<close> is 0 for
  \<^verbatim>\<open>None\<close> and for 0, and the value otherwise; \<^verbatim>\<open>min\<close> is only reached on a non-empty list.
\<close>

definition get_max_active_requests :: "dify_config \<Rightarrow> app \<Rightarrow> int" where
  "get_max_active_requests cfg a =
     (let app_limit = (case max_active_requests a of
                         None \<Rightarrow> 0
                       | Some v \<Rightarrow> if v = 0 then 0 else v);
          config_limit = APP_MAX_ACTIVE_REQUESTS cfg;
          limits = filter (\<lambda>limit. limit > 0) [app_limit, config_limit]
      in if limits \<noteq> [] then min_list limits else 0)"

text \<open>
  The ceiling in the words of the specification: the minimum of the non-zero values among the
  two limits, and 0 (unlimited) if both are zero.
\<close>

definition spec_effective_ceiling :: "int \<Rightarrow> int \<Rightarrow> int" where
  "spec_effective_ceiling app_limit global_limit =
     (let non_zero = filter (\<lambda>limit. limit \<noteq> 0) [app_limit, global_limit]
      in if non_zero = [] then 0 else min_list non_zero)"

text \<open>Lines 212-234, \<^verbatim>\<open>_get_workflow\<close>.\<close>

definition get_workflow ::
    "collaborators \<Rightarrow> app \<Rightarrow> invoke_from \<Rightarrow> state \<Rightarrow> (exn + workflow) \<times> state" where
  "get_workflow env app_model invoke_from s =
     (if invoke_from = DEBUGGER then
        (case get_draft_workflow env app_model of
           None \<Rightarrow> Inl (ValueError ''Workflow not initialized'')
         | Some w \<Rightarrow> Inr w,
         log_event (EvGetDraftWorkflow (app_id app_model)) s)
      else
        (case get_published_workflow env app_model of
           None \<Rightarrow> Inl (ValueError ''Workflow not published'')
         | Some w \<Rightarrow> Inr w,
         log_event (EvGetPublishedWorkflow (app_id app_model)) s))"

text \<open>A call of a strategy method: the strategy runs, and the call is logged.\<close>

definition call_strategy ::
    "collaborators \<Rightarrow> generator_class \<Rightarrow> strategy_call \<Rightarrow> state
      \<Rightarrow> (exn + generation_output) \<times> state" where
  "call_strategy env cls c s = (strategy env cls c, log_event (EvStrategy cls c) s)"

text \<open>
  \<^verbatim>\<open>return rate_limit.generate(X.convert_to_event_stream(X().generate(...)), request_id)\<close>:
  the arguments are evaluated first, so an exception of the strategy leaves before
  \<^verbatim>\<open>rate_limit.generate\<close> is called.
\<close>

definition rate_limited_call ::
    "collaborators \<Rightarrow> rate_limit \<Rightarrow> generator_class \<Rightarrow> strategy_call \<Rightarrow> string \<Rightarrow> state
      \<Rightarrow> (exn + response) \<times> state" where
  "rate_limited_call env rl cls c request_id s =
     (case call_strategy env cls c s of
        (Inl e, s1) \<Rightarrow> (Inl e, s1)
      | (Inr out, s1) \<Rightarrow>
          (case rate_limit_generate rl (convert_to_event_stream env cls out) request_id s1 of
             (resp, s2) \<Rightarrow> (Inr resp, s2)))"

text \<open>Lines 43-53 of \<^verbatim>\<open>generate\<close>: the system level rate limiter, before the \<^verbatim>\<open>try\<close>.\<close>

definition quota_message :: "dify_config \<Rightarrow> string" where
  "quota_message cfg =
     ''Rate limit exceeded, please upgrade your plan or your RPD was ''
       @ str_int (APP_DAILY_RATE_LIMIT cfg) @ '' requests/day''"

definition generate_system_rate_limit ::
    "dify_config \<Rightarrow> collaborators \<Rightarrow> app \<Rightarrow> state \<Rightarrow> (exn + unit) \<times> state" where
  "generate_system_rate_limit cfg env app_model s =
     (if BILLING_ENABLED cfg then
        (let s1 = log_event (EvGetInfo (tenant_id app_model)) s in
         if billing_plan env (tenant_id app_model) = ''sandbox'' then
           (case is_rate_limited (system_rate_limiter cfg) (tenant_id app_model) s1 of
              (limited, s2) \<Rightarrow>
                if limited then (Inl (InvokeRateLimitError (quota_message cfg)), s2)
                else (Inr (),
                      increment_rate_limit (system_rate_limiter cfg) (tenant_id app_model) s2))
         else (Inr (), s1))
      else (Inr (), s))"

text \<open>
  Lines 61-121 of \<^verbatim>\<open>generate\<close>: the chain of \<^verbatim>\<open>if\<close>/\<^verbatim>\<open>elif\<close> on the mode, inside the
  \<^verbatim>\<open>try\<close>, after \<^verbatim>\<open>enter\<close> has returned the request id.
\<close>

definition generate_dispatch ::
    "collaborators \<Rightarrow> rate_limit \<Rightarrow> app \<Rightarrow> user \<Rightarrow> args \<Rightarrow> invoke_from \<Rightarrow> bool \<Rightarrow> string
      \<Rightarrow> state \<Rightarrow> (exn + response) \<times> state" where
  "generate_dispatch env rl app_model user args invoke_from streaming request_id s =
     (if mode app_model = AppMode_COMPLETION then
        rate_limited_call env rl CompletionAppGenerator
          (Generate app_model user args invoke_from streaming) request_id s
      else if mode app_model = AppMode_AGENT_CHAT \<or> is_agent app_model then
        rate_limited_call env rl AgentChatAppGenerator
          (Generate app_model user args invoke_from streaming) request_id s
      else if mode app_model = AppMode_CHAT then
        rate_limited_call env rl ChatAppGenerator
          (Generate app_model user args invoke_from streaming) request_id s
      else if mode app_model = AppMode_ADVANCED_CHAT then
        (case get_workflow env app_model invoke_from s of
           (Inl e, s1) \<Rightarrow> (Inl e, s1)
         | (Inr workflow, s1) \<Rightarrow>
             rate_limited_call env rl AdvancedChatAppGenerator
               (GenerateAdvancedChat app_model workflow user args invoke_from streaming)
               request_id s1)
      else if mode app_model = AppMode_WORKFLOW then
        (case get_workflow env app_model invoke_from s of
           (Inl e, s1) \<Rightarrow> (Inl e, s1)
         | (Inr workflow, s1) \<Rightarrow>
             rate_limited_call env rl WorkflowAppGenerator
               (GenerateWorkflow app_model workflow user args invoke_from streaming 0 None)
               request_id s1)
      else (Inl (ValueError (''Invalid app mode '' @ mode app_model)), s))"

text \<open>
  Lines 59-121 of \<^verbatim>\<open>generate\<close>: the body of the \<^verbatim>\<open>try\<close>. It returns the outcome, the value
  of the variable \<^verbatim>\<open>request_id\<close> when the body is left (the assignment of line 60 does not
  happen when \<^verbatim>\<open>enter\<close> raises) and the state.
\<close>

definition generate_try ::
    "collaborators \<Rightarrow> rate_limit \<Rightarrow> app \<Rightarrow> user \<Rightarrow> args \<Rightarrow> invoke_from \<Rightarrow> bool \<Rightarrow> string
      \<Rightarrow> state \<Rightarrow> (exn + response) \<times> string \<times> state" where
  "generate_try env rl app_model user args invoke_from streaming request_id0 s =
     (case enter rl request_id0 s of
        (Inl e, s1) \<Rightarrow> (Inl e, request_id0, s1)
      | (Inr request_id, s1) \<Rightarrow>
          (case generate_dispatch env rl app_model user args invoke_from streaming
                  request_id s1 of
             (r, s2) \<Rightarrow> (r, request_id, s2)))"

text \<open>
  Lines 122-126 of \<^verbatim>\<open>generate\<close>: the two handlers. The first matching clause handles the
  exception; an exception raised inside a handler is not offered to the next clause. An
  exception that is not a subclass of \<^verbatim>\<open>Exception\<close> matches neither clause and leaves the
  \<^verbatim>\<open>try\<close> statement as it is, through the \<^verbatim>\<open>finally\<close> clause.
\<close>

fun generate_except ::
    "rate_limit \<Rightarrow> string \<Rightarrow> exn + response \<Rightarrow> state \<Rightarrow> (exn + response) \<times> state" where
  "generate_except rl request_id (Inr resp) s = (Inr resp, s)"
| "generate_except rl request_id (Inl (RateLimitError m)) s = (Inl (InvokeRateLimitError m), s)"
| "generate_except rl request_id (Inl (BaseException n)) s = (Inl (BaseException n), s)"
| "generate_except rl request_id (Inl e) s = (Inl e, exit rl request_id s)"

text \<open>Lines 127-129 of \<^verbatim>\<open>generate\<close>: the \<^verbatim>\<open>finally\<close> clause.\<close>

definition generate_finally :: "bool \<Rightarrow> rate_limit \<Rightarrow> string \<Rightarrow> state \<Rightarrow> state" where
  "generate_finally streaming rl request_id s =
     (if \<not> streaming then exit rl request_id s else s)"

text \<open>Lines 25-129, \<^verbatim>\<open>generate\<close>.\<close>

definition generate ::
    "dify_config \<Rightarrow> collaborators \<Rightarrow> app \<Rightarrow> user \<Rightarrow> args \<Rightarrow> invoke_from \<Rightarrow> bool \<Rightarrow> state
      \<Rightarrow> (exn + response) \<times> state" where
  "generate cfg env app_model user args invoke_from streaming s =
     (case generate_system_rate_limit cfg env app_model s of
        (Inl e, s0) \<Rightarrow> (Inl e, s0)
      | (Inr u, s0) \<Rightarrow>
          (let max_active_request = get_max_active_requests cfg app_model;
               rl = RateLimit (app_id app_model) max_active_request
           in case generate_try env rl app_model user args invoke_from streaming (gen_request_key env) s0 of
                (r, request_id, s1) \<Rightarrow>
                  (case generate_except rl request_id r s1 of
                     (r', s2) \<Rightarrow> (r', generate_finally streaming rl request_id s2))))"

text \<open>Lines 152-169, \<^verbatim>\<open>generate_single_iteration\<close>.\<close>

definition generate_single_iteration ::
    "collaborators \<Rightarrow> app \<Rightarrow> user \<Rightarrow> string \<Rightarrow> args \<Rightarrow> bool \<Rightarrow> state
      \<Rightarrow> (exn + generation_output) \<times> state" where
  "generate_single_iteration env app_model user node_id args streaming s =
     (if mode app_model = AppMode_ADVANCED_CHAT then
        (case get_workflow env app_model DEBUGGER s of
           (Inl e, s1) \<Rightarrow> (Inl e, s1)
         | (Inr workflow, s1) \<Rightarrow>
             (case call_strategy env AdvancedChatAppGenerator
                     (SingleIterationGenerate app_model workflow node_id user args streaming) s1 of
                (Inl e, s2) \<Rightarrow> (Inl e, s2)
              | (Inr out, s2) \<Rightarrow>
                  (Inr (convert_to_event_stream env AdvancedChatAppGenerator out), s2)))
      else if mode app_model = AppMode_WORKFLOW then
        (case get_workflow env app_model DEBUGGER s of
           (Inl e, s1) \<Rightarrow> (Inl e, s1)
         | (Inr workflow, s1) \<Rightarrow>
             (case call_strategy env WorkflowAppGenerator
                     (SingleIterationGenerate app_model workflow node_id user args streaming) s1 of
                (Inl e, s2) \<Rightarrow> (Inl e, s2)
              | (Inr out, s2) \<Rightarrow>
                  (Inr (convert_to_event_stream env AdvancedChatAppGenerator out), s2)))
      else (Inl (ValueError (''Invalid app mode '' @ mode app_model)), s))"

text \<open>Lines 171-188, \<^verbatim>\<open>generate_single_loop\<close>.\<close>

definition generate_single_loop ::
    "collaborators \<Rightarrow> app \<Rightarrow> user \<Rightarrow> string \<Rightarrow> args \<Rightarrow> bool \<Rightarrow> state
      \<Rightarrow> (exn + generation_output) \<times> state" where
  "generate_single_loop env app_model user node_id args streaming s =
     (if mode app_model = AppMode_ADVANCED_CHAT then
        (case get_workflow env app_model DEBUGGER s of
           (Inl e, s1) \<Rightarrow> (Inl e, s1)
         | (Inr workflow, s1) \<Rightarrow>
             (case call_strategy env AdvancedChatAppGenerator
                     (SingleLoopGenerate app_model workflow node_id user args streaming) s1 of
                (Inl e, s2) \<Rightarrow> (Inl e, s2)
              | (Inr out, s2) \<Rightarrow>
                  (Inr (convert_to_event_stream env AdvancedChatAppGenerator out), s2)))
      else if mode app_model = AppMode_WORKFLOW then
        (case get_workflow env app_model DEBUGGER s of
           (Inl e, s1) \<Rightarrow> (Inl e, s1)
         | (Inr workflow, s1) \<Rightarrow>
             (case call_strategy env WorkflowAppGenerator
                     (SingleLoopGenerate app_model workflow node_id user args streaming) s1 of
                (Inl e, s2) \<Rightarrow> (Inl e, s2)
              | (Inr out, s2) \<Rightarrow>
                  (Inr (convert_to_event_stream env AdvancedChatAppGenerator out), s2)))
      else (Inl (ValueError (''Invalid app mode '' @ mode app_model)), s))"

text \<open>Lines 190-210, \<^verbatim>\<open>generate_more_like_this\<close>.\<close>

definition generate_more_like_this ::
    "collaborators \<Rightarrow> app \<Rightarrow> user \<Rightarrow> string \<Rightarrow> invoke_from \<Rightarrow> bool \<Rightarrow> state
      \<Rightarrow> (exn + generation_output) \<times> state" where
  "generate_more_like_this env app_model user message_id invoke_from streaming s =
     call_strategy env CompletionAppGenerator
       (GenerateMoreLikeThis app_model message_id user invoke_from streaming) s"

section \<open>Reading the log\<close>

text \<open>The entries a call has appended to the log of the state it started from.\<close>

definition new_events :: "state \<Rightarrow> state \<Rightarrow> event list" where
  "new_events s s' = drop (length (trace s)) (trace s')"

text \<open>Calls of the system rate limiter, of the governor, and of a strategy.\<close>

fun rate_limiter_event :: "event \<Rightarrow> bool" where
  "rate_limiter_event (EvIsRateLimited t) = True"
| "rate_limiter_event (EvIncrementRateLimit t) = True"
| "rate_limiter_event ev = False"

fun governor_event :: "event \<Rightarrow> bool" where
  "governor_event (EvEnter a r) = True"
| "governor_event (EvExit a r) = True"
| "governor_event (EvRateLimitGenerate a r) = True"
| "governor_event ev = False"

fun strategy_event :: "event \<Rightarrow> bool" where
  "strategy_event (EvStrategy cls c) = True"
| "strategy_event ev = False"

text \<open>What the dispatch of lines 61-121 may append to the log.\<close>

fun dispatch_event :: "event \<Rightarrow> bool" where
  "dispatch_event (EvRateLimitGenerate a r) = True"
| "dispatch_event (EvGetDraftWorkflow a) = True"
| "dispatch_event (EvGetPublishedWorkflow a) = True"
| "dispatch_event (EvStrategy cls c) = True"
| "dispatch_event ev = False"

text \<open>The provider's throttling signal, which the first handler of \<^verbatim>\<open>generate\<close> catches.\<close>

fun provider_throttling :: "exn \<Rightarrow> bool" where
  "provider_throttling (RateLimitError m) = True"
| "provider_throttling e = False"

text \<open>The exceptions that \<^verbatim>\<open>except Exception\<close> catches: the subclasses of \<^verbatim>\<open>Exception\<close>.\<close>

fun exception_subclass :: "exn \<Rightarrow> bool" where
  "exception_subclass (BaseException n) = False"
| "exception_subclass e = True"

section \<open>Concrete collaborators, applications and states\<close>

text \<open>
  A tenant \<open>''t1''\<close> on the sandbox plan with an application \<open>''a1''\<close>, a daily ceiling of 3 and
  a global concurrency ceiling of 5; the strategies answer with a fixed stream unless the
  example makes them raise; the workflow service knows the draft and the published workflow
  the example gives it.
\<close>

definition cfg0 :: dify_config where
  "cfg0 = \<lparr>BILLING_ENABLED = True, APP_DAILY_RATE_LIMIT = 3, APP_MAX_ACTIVE_REQUESTS = 5\<rparr>"

definition app0 :: "string \<Rightarrow> bool \<Rightarrow> app" where
  "app0 m ag =
     \<lparr>app_id = ''a1'', tenant_id = ''t1'', mode = m, is_agent = ag,
      max_active_requests = Some 2\<rparr>"

definition env0 ::
    "(exn + generation_output) \<Rightarrow> workflow option \<Rightarrow> workflow option \<Rightarrow> collaborators" where
  "env0 r draft published =
     \<lparr>billing_plan = (\<lambda>t. ''sandbox''),
      get_draft_workflow = (\<lambda>a. draft),
      get_published_workflow = (\<lambda>a. published),
      strategy = (\<lambda>cls c. r),
      convert_to_event_stream = (\<lambda>cls out. out),
      gen_request_key = ''r1''\<rparr>"

definition state0 :: "nat \<Rightarrow> state" where
  "state0 n =
     \<lparr>clock = 0,
      rate_counters = (if n = 0 then Map.empty
                       else [''t1'' \<mapsto> \<lparr>window_count = n, window_expires = 86400\<rparr>]),
      active_requests = (\<lambda>a. if a = ''a1'' then {''r0''} else {}),
      trace = []\<rparr>"

section \<open>Facts about the pieces of the model\<close>

lemma log_event_fields [simp]:
  "trace (log_event e s) = trace s @ [e]"
  "rate_counters (log_event e s) = rate_counters s"
  "active_requests (log_event e s) = active_requests s"
  "clock (log_event e s) = clock s"
  by (simp_all add: log_event_def)

lemma exit_fields [simp]:
  "trace (exit rl r s) = trace s @ [EvExit (client_id rl) r]"
  "rate_counters (exit rl r s) = rate_counters s"
  "clock (exit rl r s) = clock s"
  "active_requests (exit rl r s) =
     (active_requests s)(client_id rl := active_requests s (client_id rl) - {r})"
  by (simp_all add: exit_def)

lemma new_events_append [simp]: "trace s' = trace s @ evs \<Longrightarrow> new_events s s' = evs"
  by (simp add: new_events_def)

lemma get_workflow_fields [simp]:
  "rate_counters (snd (get_workflow env a i s)) = rate_counters s"
  "active_requests (snd (get_workflow env a i s)) = active_requests s"
  "clock (snd (get_workflow env a i s)) = clock s"
  "trace (snd (get_workflow env a i s)) =
     trace s @ [if i = DEBUGGER then EvGetDraftWorkflow (app_id a)
                else EvGetPublishedWorkflow (app_id a)]"
  by (simp_all add: get_workflow_def)

lemma get_workflow_result:
  "fst (get_workflow env a i s) =
     (if i = DEBUGGER then
        (case get_draft_workflow env a of
           None \<Rightarrow> Inl (ValueError ''Workflow not initialized'') | Some w \<Rightarrow> Inr w)
      else (case get_published_workflow env a of
           None \<Rightarrow> Inl (ValueError ''Workflow not published'') | Some w \<Rightarrow> Inr w))"
  by (simp add: get_workflow_def)

lemma rate_limited_call_fields [simp]:
  "rate_counters (snd (rate_limited_call env rl cls c rid s)) = rate_counters s"
  "active_requests (snd (rate_limited_call env rl cls c rid s)) = active_requests s"
  "clock (snd (rate_limited_call env rl cls c rid s)) = clock s"
  "trace (snd (rate_limited_call env rl cls c rid s)) =
     trace s @ EvStrategy cls c #
       (case strategy env cls c of Inl e \<Rightarrow> [] | Inr out \<Rightarrow> [EvRateLimitGenerate (client_id rl) rid])"
  "fst (rate_limited_call env rl cls c rid s) =
     (case strategy env cls c of
        Inl e \<Rightarrow> Inl e
      | Inr out \<Rightarrow> Inr (fst (rate_limit_generate rl (convert_to_event_stream env cls out) rid s)))"
  by (simp_all add: rate_limited_call_def call_strategy_def rate_limit_generate_def
      split: sum.splits prod.splits)

lemma workflow_branch:
  "(case get_workflow env a i s of
      (Inl e, s1) \<Rightarrow> (Inl e, s1)
    | (Inr w, s1) \<Rightarrow> rate_limited_call env rl cls (f w) rid s1) =
   (case fst (get_workflow env a i s) of
      Inl e \<Rightarrow> (Inl e, snd (get_workflow env a i s))
    | Inr w \<Rightarrow> rate_limited_call env rl cls (f w) rid (snd (get_workflow env a i s)))"
  by (simp add: split_beta)

lemma generate_dispatch_cases:
  obtains (call) cls c s1 where
      "generate_dispatch env rl a u ar i st rid s = rate_limited_call env rl cls c rid s1"
      "s1 = s \<or> s1 = snd (get_workflow env a i s)"
    | (fail) e s1 where
      "generate_dispatch env rl a u ar i st rid s = (Inl e, s1)"
      "s1 = s \<or> s1 = snd (get_workflow env a i s)"
proof -
  consider
      (completion) "mode a = AppMode_COMPLETION"
    | (agent) "mode a \<noteq> AppMode_COMPLETION" "mode a = AppMode_AGENT_CHAT \<or> is_agent a"
    | (chat) "mode a \<noteq> AppMode_COMPLETION" "\<not> (mode a = AppMode_AGENT_CHAT \<or> is_agent a)"
        "mode a = AppMode_CHAT"
    | (advanced) "mode a \<noteq> AppMode_COMPLETION" "\<not> (mode a = AppMode_AGENT_CHAT \<or> is_agent a)"
        "mode a \<noteq> AppMode_CHAT" "mode a = AppMode_ADVANCED_CHAT"
    | (workflow) "mode a \<noteq> AppMode_COMPLETION" "\<not> (mode a = AppMode_AGENT_CHAT \<or> is_agent a)"
        "mode a \<noteq> AppMode_CHAT" "mode a \<noteq> AppMode_ADVANCED_CHAT" "mode a = AppMode_WORKFLOW"
    | (invalid) "mode a \<noteq> AppMode_COMPLETION" "\<not> (mode a = AppMode_AGENT_CHAT \<or> is_agent a)"
        "mode a \<noteq> AppMode_CHAT" "mode a \<noteq> AppMode_ADVANCED_CHAT" "mode a \<noteq> AppMode_WORKFLOW"
    by blast
  then show thesis
  proof cases
    case completion
    then have "generate_dispatch env rl a u ar i st rid s =
        rate_limited_call env rl CompletionAppGenerator (Generate a u ar i st) rid s"
      by (simp add: generate_dispatch_def)
    then show thesis by (rule call) simp
  next
    case agent
    then have "generate_dispatch env rl a u ar i st rid s =
        rate_limited_call env rl AgentChatAppGenerator (Generate a u ar i st) rid s"
      by (simp add: generate_dispatch_def)
    then show thesis by (rule call) simp
  next
    case chat
    then have "generate_dispatch env rl a u ar i st rid s =
        rate_limited_call env rl ChatAppGenerator (Generate a u ar i st) rid s"
      by (simp add: generate_dispatch_def)
    then show thesis by (rule call) simp
  next
    case advanced
    then have eq: "generate_dispatch env rl a u ar i st rid s =
        (case fst (get_workflow env a i s) of
           Inl e \<Rightarrow> (Inl e, snd (get_workflow env a i s))
         | Inr w \<Rightarrow> rate_limited_call env rl AdvancedChatAppGenerator
                     (GenerateAdvancedChat a w u ar i st) rid (snd (get_workflow env a i s)))"
      by (simp add: generate_dispatch_def workflow_branch)
    show thesis
    proof (cases "fst (get_workflow env a i s)")
      case (Inl e)
      with eq show thesis by (intro fail [of e "snd (get_workflow env a i s)"]) simp_all
    next
      case (Inr w)
      with eq show thesis
        by (intro call [of AdvancedChatAppGenerator "GenerateAdvancedChat a w u ar i st"
              "snd (get_workflow env a i s)"]) simp_all
    qed
  next
    case workflow
    then have eq: "generate_dispatch env rl a u ar i st rid s =
        (case fst (get_workflow env a i s) of
           Inl e \<Rightarrow> (Inl e, snd (get_workflow env a i s))
         | Inr w \<Rightarrow> rate_limited_call env rl WorkflowAppGenerator
                     (GenerateWorkflow a w u ar i st 0 None) rid (snd (get_workflow env a i s)))"
      by (simp add: generate_dispatch_def workflow_branch)
    show thesis
    proof (cases "fst (get_workflow env a i s)")
      case (Inl e)
      with eq show thesis by (intro fail [of e "snd (get_workflow env a i s)"]) simp_all
    next
      case (Inr w)
      with eq show thesis
        by (intro call [of WorkflowAppGenerator "GenerateWorkflow a w u ar i st 0 None"
              "snd (get_workflow env a i s)"]) simp_all
    qed
  next
    case invalid
    then have "generate_dispatch env rl a u ar i st rid s =
        (Inl (ValueError (''Invalid app mode '' @ mode a)), s)"
      by (simp add: generate_dispatch_def)
    then show thesis by (rule fail) simp
  qed
qed

lemma generate_dispatch_frame:
  "rate_counters (snd (generate_dispatch env rl a u ar i st rid s)) = rate_counters s"
  "active_requests (snd (generate_dispatch env rl a u ar i st rid s)) = active_requests s"
  "clock (snd (generate_dispatch env rl a u ar i st rid s)) = clock s"
  by (cases rule: generate_dispatch_cases [of env rl a u ar i st rid s]; auto)+

lemma generate_dispatch_trace:
  "\<exists>evs. trace (snd (generate_dispatch env rl a u ar i st rid s)) = trace s @ evs
     \<and> list_all dispatch_event evs"
  by (cases rule: generate_dispatch_cases [of env rl a u ar i st rid s])
     (auto split: sum.splits)

lemma generate_dispatch_raises:
  assumes "EvStrategy cls c \<in> set (new_events s (snd (generate_dispatch env rl a u ar i st rid s)))"
      and "strategy env cls c = Inl e"
  shows "fst (generate_dispatch env rl a u ar i st rid s) = Inl e"
    and "\<exists>pre. trace (snd (generate_dispatch env rl a u ar i st rid s)) = trace s @ pre @ [EvStrategy cls c]
           \<and> list_all dispatch_event pre"
  using assms
  by (cases rule: generate_dispatch_cases [of env rl a u ar i st rid s];
      auto simp add: new_events_def split: sum.splits if_splits)+

lemma current_count_log_event [simp]: "current_count (log_event e s) t = current_count s t"
  by (simp add: current_count_def split: option.splits)

lemma generate_system_rate_limit_cases:
  "generate_system_rate_limit cfg env a s =
     (if BILLING_ENABLED cfg then
        if billing_plan env (tenant_id a) = ''sandbox'' then
          if APP_DAILY_RATE_LIMIT cfg \<le> int (current_count s (tenant_id a))
          then (Inl (InvokeRateLimitError (quota_message cfg)),
                log_event (EvIsRateLimited (tenant_id a)) (log_event (EvGetInfo (tenant_id a)) s))
          else (Inr (),
                increment_rate_limit (system_rate_limiter cfg) (tenant_id a)
                  (log_event (EvIsRateLimited (tenant_id a))
                     (log_event (EvGetInfo (tenant_id a)) s)))
        else (Inr (), log_event (EvGetInfo (tenant_id a)) s)
      else (Inr (), s))"
  by (simp add: generate_system_rate_limit_def is_rate_limited_def system_rate_limiter_def Let_def)

lemma increment_rate_limit_fields [simp]:
  "trace (increment_rate_limit rl t s) = trace s @ [EvIncrementRateLimit t]"
  "active_requests (increment_rate_limit rl t s) = active_requests s"
  "clock (increment_rate_limit rl t s) = clock s"
  by (simp_all add: increment_rate_limit_def)

lemma generate_system_rate_limit_frame:
  "active_requests (snd (generate_system_rate_limit cfg env a s)) = active_requests s"
  "clock (snd (generate_system_rate_limit cfg env a s)) = clock s"
  "\<exists>evs. trace (snd (generate_system_rate_limit cfg env a s)) = trace s @ evs
      \<and> list_all (\<lambda>ev. \<not> governor_event ev \<and> \<not> dispatch_event ev) evs"
  by (simp_all add: generate_system_rate_limit_cases)

lemma enter_admits:
  "has_capacity rl s \<Longrightarrow>
   enter rl rid s =
     (Inr rid,
      (log_event (EvEnter (client_id rl) rid) s)
        \<lparr>active_requests := (active_requests s)
           (client_id rl := insert rid (active_requests s (client_id rl)))\<rparr>)"
  by (simp add: enter_def Let_def)

lemma enter_rejects:
  "\<not> has_capacity rl s \<Longrightarrow>
   enter rl rid s =
     (Inl (AppInvokeQuotaExceededError (client_id rl) (max_active rl)),
      log_event (EvEnter (client_id rl) rid) s)"
  by (simp add: enter_def Let_def)

lemma generate_except_other:
  "\<not> provider_throttling e \<Longrightarrow> exception_subclass e \<Longrightarrow>
   generate_except rl rid (Inl e) s = (Inl e, exit rl rid s)"
  by (cases e) simp_all

lemma generate_except_uncaught:
  "\<not> exception_subclass e \<Longrightarrow> generate_except rl rid (Inl e) s = (Inl e, s)"
  by (cases e) simp_all

lemma generate_finally_fields [simp]:
  "rate_counters (generate_finally st rl rid s) = rate_counters s"
  "clock (generate_finally st rl rid s) = clock s"
  "trace (generate_finally st rl rid s) =
     trace s @ (if st then [] else [EvExit (client_id rl) rid])"
  "active_requests (generate_finally st rl rid s) =
     (if st then active_requests s
      else (active_requests s)(client_id rl := active_requests s (client_id rl) - {rid}))"
  by (simp_all add: generate_finally_def)

lemma generate_except_trace:
  "\<exists>xs. trace (snd (generate_except rl rid r s)) = trace s @ xs
     \<and> list_all (\<lambda>ev. ev = EvExit (client_id rl) rid) xs"
proof (cases r)
  case (Inl e)
  then show ?thesis by (cases e) simp_all
next
  case (Inr resp)
  then show ?thesis by simp
qed

lemma enter_fields [simp]:
  "trace (snd (enter rl rid s)) = trace s @ [EvEnter (client_id rl) rid]"
  "rate_counters (snd (enter rl rid s)) = rate_counters s"
  "clock (snd (enter rl rid s)) = clock s"
  by (simp_all add: enter_def Let_def)

lemma generate_try_trace:
  "\<exists>mid. trace (snd (snd (generate_try env rl a u ar i st rid s))) =
            trace s @ EvEnter (client_id rl) rid # mid
     \<and> list_all dispatch_event mid"
proof (cases "has_capacity rl s")
  case True
  from generate_dispatch_trace [of env rl a u ar i st rid "snd (enter rl rid s)"]
  show ?thesis
    using True by (auto simp add: generate_try_def enter_admits split_beta)
next
  case False
  then show ?thesis
    by (simp add: generate_try_def enter_rejects)
qed

lemma generate_try_frame:
  "fst (snd (generate_try env rl a u ar i st rid s)) = rid"
  "rate_counters (snd (snd (generate_try env rl a u ar i st rid s))) = rate_counters s"
  "clock (snd (snd (generate_try env rl a u ar i st rid s))) = clock s"
  by (cases "has_capacity rl s";
      simp add: generate_try_def enter_admits enter_rejects split_beta generate_dispatch_frame)+

lemma generate_except_frame [simp]:
  "rate_counters (snd (generate_except rl rid r s)) = rate_counters s"
  "clock (snd (generate_except rl rid r s)) = clock s"
  by (cases r; cases "projl r"; simp)+

lemma generate_passed:
  assumes "generate_system_rate_limit cfg env a s = (Inr u, s0)"
  obtains r s2 mid where
    "generate cfg env a user args i st s =
       (r, generate_finally st (RateLimit (app_id a) (get_max_active_requests cfg a))
             (gen_request_key env) s2)"
    "trace s2 = trace s0 @ EvEnter (app_id a) (gen_request_key env) # mid"
    "list_all (\<lambda>ev. dispatch_event ev \<or> ev = EvExit (app_id a) (gen_request_key env)) mid"
    "rate_counters s2 = rate_counters s0"
    "clock s2 = clock s0"
proof -
  define rl where "rl = RateLimit (app_id a) (get_max_active_requests cfg a)"
  define rid where "rid = gen_request_key env"
  have cid [simp]: "client_id rl = app_id a"
    by (simp add: rl_def RateLimit_def)
  obtain r rid' s1 where gtry: "generate_try env rl a user args i st rid s0 = (r, rid', s1)"
    by (cases "generate_try env rl a user args i st rid s0") auto
  from generate_try_frame [of env rl a user args i st rid s0] gtry
  have rid': "rid' = rid" and fr: "rate_counters s1 = rate_counters s0" "clock s1 = clock s0"
    by simp_all
  from generate_try_trace [of env rl a user args i st rid s0] gtry
  obtain mid where mid: "trace s1 = trace s0 @ EvEnter (app_id a) rid # mid"
      "list_all dispatch_event mid"
    by auto
  from generate_except_trace [of rl rid r s1]
  obtain xs where xs: "trace (snd (generate_except rl rid r s1)) = trace s1 @ xs"
      "list_all (\<lambda>ev. ev = EvExit (app_id a) rid) xs"
    by auto
  have "generate cfg env a user args i st s =
      (fst (generate_except rl rid r s1),
       generate_finally st rl rid (snd (generate_except rl rid r s1)))"
    using assms gtry rid'
    by (simp add: generate_def rl_def [symmetric] rid_def [symmetric] Let_def split_beta)
  moreover have "trace (snd (generate_except rl rid r s1)) =
      trace s0 @ EvEnter (app_id a) rid # (mid @ xs)"
    by (simp add: xs mid)
  moreover have "list_all (\<lambda>ev. dispatch_event ev \<or> ev = EvExit (app_id a) rid) (mid @ xs)"
    using mid(2) xs(2) by (auto simp add: list_all_iff)
  ultimately show thesis
    using fr that [of "fst (generate_except rl rid r s1)" "snd (generate_except rl rid r s1)"
        "mid @ xs"]
    by (simp add: rl_def rid_def)
qed

lemma dispatch_event_not_rate_limiter:
  "dispatch_event ev \<or> ev = EvExit x y \<Longrightarrow> \<not> rate_limiter_event ev"
  by (cases ev) auto

lemma current_count_increment:
  "0 < time_window rl \<Longrightarrow>
   current_count (increment_rate_limit rl t s) t = Suc (current_count s t)"
  by (auto simp add: increment_rate_limit_def current_count_def log_event_def
      split: option.splits if_splits)

lemma current_count_cong:
  "rate_counters s' = rate_counters s \<Longrightarrow> clock s' = clock s \<Longrightarrow>
   current_count s' t = current_count s t"
  by (simp add: current_count_def split: option.splits)

lemma strategy_event_dispatch: "strategy_event ev \<Longrightarrow> dispatch_event ev"
  by (cases ev) auto

lemma gate_has_capacity:
  "generate_system_rate_limit cfg env a s = (g, s0) \<Longrightarrow> has_capacity rl s0 = has_capacity rl s"
  using generate_system_rate_limit_frame(1) [of cfg env a s]
  by (simp add: has_capacity_def)

lemma generate_admitted:
  assumes "generate_system_rate_limit cfg env a s = (Inr u, s0)"
      and "has_capacity (RateLimit (app_id a) (get_max_active_requests cfg a)) s"
  shows "generate cfg env a user args i st s =
     (let rl = RateLimit (app_id a) (get_max_active_requests cfg a);
          rid = gen_request_key env;
          d = generate_dispatch env rl a user args i st rid (snd (enter rl rid s0));
          h = generate_except rl rid (fst d) (snd d)
      in (fst h, generate_finally st rl rid (snd h)))"
  using assms gate_has_capacity [OF assms(1), of "RateLimit (app_id a) (get_max_active_requests cfg a)"]
  by (simp add: generate_def generate_try_def enter_admits Let_def split_beta)

lemma generate_not_admitted:
  assumes "generate_system_rate_limit cfg env a s = (Inr u, s0)"
      and "\<not> has_capacity (RateLimit (app_id a) (get_max_active_requests cfg a)) s"
  shows "generate cfg env a user args i st s =
     (let rl = RateLimit (app_id a) (get_max_active_requests cfg a);
          rid = gen_request_key env
      in (Inl (AppInvokeQuotaExceededError (app_id a) (get_max_active_requests cfg a)),
          generate_finally st rl rid (exit rl rid (log_event (EvEnter (app_id a) rid) s0))))"
  using assms gate_has_capacity [OF assms(1), of "RateLimit (app_id a) (get_max_active_requests cfg a)"]
  by (simp add: generate_def generate_try_def enter_rejects Let_def)
     (simp add: RateLimit_def)

lemma generate_dispatch_invalid:
  assumes "mode a \<noteq> AppMode_COMPLETION" "mode a \<noteq> AppMode_AGENT_CHAT"
      "mode a \<noteq> AppMode_CHAT" "mode a \<noteq> AppMode_ADVANCED_CHAT" "mode a \<noteq> AppMode_WORKFLOW"
      "\<not> is_agent a"
  shows "generate_dispatch env rl a u ar i st rid s =
     (Inl (ValueError (''Invalid app mode '' @ mode a)), s)"
  using assms by (simp add: generate_dispatch_def)

text \<open>
  A call of \<^verbatim>\<open>generate\<close> in which a strategy was invoked and raised: the request had been
  admitted, the strategy call is the last entry of the log when the handlers are reached, and
  the outcome is what the handlers and the \<^verbatim>\<open>finally\<close> clause make of the exception.
\<close>

lemma generate_strategy_raised:
  assumes inv: "EvStrategy cls c \<in>
             set (new_events s (snd (generate cfg env a user args i st s)))"
      and raises: "strategy env cls c = Inl e"
  obtains s2 pre where
    "generate cfg env a user args i st s =
       (fst (generate_except (RateLimit (app_id a) (get_max_active_requests cfg a))
               (gen_request_key env) (Inl e) s2),
        generate_finally st (RateLimit (app_id a) (get_max_active_requests cfg a))
          (gen_request_key env)
          (snd (generate_except (RateLimit (app_id a) (get_max_active_requests cfg a))
                  (gen_request_key env) (Inl e) s2)))"
    "trace s2 = trace s @ pre @ [EvStrategy cls c]"
    "active_requests s2 =
       (active_requests s)
         (app_id a := insert (gen_request_key env) (active_requests s (app_id a)))"
proof -
  define rl where "rl = RateLimit (app_id a) (get_max_active_requests cfg a)"
  define rid where "rid = gen_request_key env"
  have cid [simp]: "client_id rl = app_id a"
    by (simp add: rl_def RateLimit_def)
  obtain g s0 where gate: "generate_system_rate_limit cfg env a s = (g, s0)"
    by (cases "generate_system_rate_limit cfg env a s")
  from generate_system_rate_limit_frame(1,3) [of cfg env a s] gate
  obtain gevs where s0: "trace s0 = trace s @ gevs"
      "list_all (\<lambda>ev. \<not> governor_event ev \<and> \<not> dispatch_event ev) gevs"
      "active_requests s0 = active_requests s"
    by auto
  have no_strategy_gate: "EvStrategy cls c \<notin> set gevs"
    using s0(2) by (auto simp add: list_all_iff)
  show thesis
  proof (cases g)
    case (Inl e0)
    with gate s0 no_strategy_gate inv show thesis
      by (simp add: generate_def)
  next
    case (Inr u)
    show thesis
    proof (cases "has_capacity rl s0")
      case False
      with gate Inr s0 no_strategy_gate inv show thesis
        by (simp add: generate_def generate_try_def enter_rejects rl_def [symmetric] Let_def
            split: if_splits)
    next
      case True
      define s1 where "s1 = (log_event (EvEnter (app_id a) rid) s0)
          \<lparr>active_requests := (active_requests s0)
             (app_id a := insert rid (active_requests s0 (app_id a)))\<rparr>"
      obtain r s2 where disp: "generate_dispatch env rl a user args i st rid s1 = (r, s2)"
        by (cases "generate_dispatch env rl a user args i st rid s1")
      from generate_dispatch_trace [of env rl a user args i st rid s1] disp
      obtain devs where devs: "trace s2 = trace s1 @ devs" by auto
      have tr1: "trace s1 = trace s @ gevs @ [EvEnter (app_id a) rid]"
        by (simp add: s1_def s0)
      have gen: "generate cfg env a user args i st s =
          (case generate_except rl rid r s2 of
             (r', s3) \<Rightarrow> (r', generate_finally st rl rid s3))"
        using gate Inr True disp
        by (simp add: generate_def generate_try_def enter_admits rl_def [symmetric]
            rid_def [symmetric] s1_def Let_def)
      obtain xs where xs:
          "trace (snd (generate_except rl rid r s2)) = trace s2 @ xs"
          "list_all (\<lambda>ev. ev = EvExit (client_id rl) rid) xs"
        using generate_except_trace [of rl rid r s2] by auto
      have "EvStrategy cls c \<in> set devs"
        using inv no_strategy_gate xs
        by (auto simp add: gen split_beta new_events_def devs tr1 list_all_iff
            split: if_splits)
      then have in_disp: "EvStrategy cls c \<in>
          set (new_events s1 (snd (generate_dispatch env rl a user args i st rid s1)))"
        by (simp add: disp devs)
      from generate_dispatch_raises [OF in_disp raises] disp
      obtain pre where r: "r = Inl e"
          and pre: "trace s2 = trace s1 @ pre @ [EvStrategy cls c]"
        by auto
      have act: "active_requests s2 =
          (active_requests s)(app_id a := insert rid (active_requests s (app_id a)))"
        using generate_dispatch_frame(2) [of env rl a user args i st rid s1] disp
        by (simp add: s1_def s0)
      have "generate cfg env a user args i st s =
          (fst (generate_except rl rid (Inl e) s2),
           generate_finally st rl rid (snd (generate_except rl rid (Inl e) s2)))"
        by (simp add: gen r split_beta)
      moreover have "trace s2 = trace s @ (gevs @ EvEnter (app_id a) rid # pre) @ [EvStrategy cls c]"
        by (simp add: pre tr1)
      ultimately show thesis
        using act that [of s2 "gevs @ EvEnter (app_id a) rid # pre"]
        by (simp add: rl_def rid_def)
    qed
  qed
qed

lemma generate_dispatch_workflow_modes:
  assumes "mode a = AppMode_ADVANCED_CHAT \<or> mode a = AppMode_WORKFLOW" and "\<not> is_agent a"
  shows "generate_dispatch env rl a u ar i st rid s =
     (case fst (get_workflow env a i s) of
        Inl e \<Rightarrow> (Inl e, snd (get_workflow env a i s))
      | Inr w \<Rightarrow>
          if mode a = AppMode_ADVANCED_CHAT
          then rate_limited_call env rl AdvancedChatAppGenerator
                 (GenerateAdvancedChat a w u ar i st) rid (snd (get_workflow env a i s))
          else rate_limited_call env rl WorkflowAppGenerator
                 (GenerateWorkflow a w u ar i st 0 None) rid (snd (get_workflow env a i s)))"
proof -
  have d: "mode a \<noteq> AppMode_COMPLETION" "mode a \<noteq> AppMode_AGENT_CHAT" "mode a \<noteq> AppMode_CHAT"
    using assms(1)
    by (auto simp add: AppMode_COMPLETION_def AppMode_AGENT_CHAT_def AppMode_CHAT_def
        AppMode_ADVANCED_CHAT_def AppMode_WORKFLOW_def)
  show ?thesis
    using assms d
    by (cases "fst (get_workflow env a i s)")
       (auto simp add: generate_dispatch_def workflow_branch)
qed

lemma generate_workflow_modes:
  assumes md: "mode a = AppMode_ADVANCED_CHAT \<or> mode a = AppMode_WORKFLOW"
      and na: "\<not> is_agent a"
      and gate: "fst (generate_system_rate_limit cfg env a s) = Inr ()"
      and cap: "has_capacity (RateLimit (app_id a) (get_max_active_requests cfg a)) s"
  shows "(if i = DEBUGGER then EvGetDraftWorkflow (app_id a) else EvGetPublishedWorkflow (app_id a))
           \<in> set (new_events s (snd (generate cfg env a user args i st s)))
     \<and> (if i = DEBUGGER then EvGetPublishedWorkflow (app_id a) else EvGetDraftWorkflow (app_id a))
           \<notin> set (new_events s (snd (generate cfg env a user args i st s)))
     \<and> (case fst (get_workflow env a i s) of
           Inl e \<Rightarrow> fst (generate cfg env a user args i st s) = Inl e
               \<and> list_all (\<lambda>ev. \<not> strategy_event ev)
                    (new_events s (snd (generate cfg env a user args i st s)))
         | Inr w \<Rightarrow>
             (if mode a = AppMode_ADVANCED_CHAT
              then EvStrategy AdvancedChatAppGenerator (GenerateAdvancedChat a w user args i st)
              else EvStrategy WorkflowAppGenerator (GenerateWorkflow a w user args i st 0 None))
               \<in> set (new_events s (snd (generate cfg env a user args i st s))))"
proof -
  define rl where "rl = RateLimit (app_id a) (get_max_active_requests cfg a)"
  define rid where "rid = gen_request_key env"
  define wev where "wev =
    (if i = DEBUGGER then EvGetDraftWorkflow (app_id a) else EvGetPublishedWorkflow (app_id a))"
  define other where "other =
    (if i = DEBUGGER then EvGetPublishedWorkflow (app_id a) else EvGetDraftWorkflow (app_id a))"
  have cid [simp]: "client_id rl = app_id a"
    by (simp add: rl_def RateLimit_def)
  obtain s0 where g: "generate_system_rate_limit cfg env a s = (Inr (), s0)"
    using gate by (cases "generate_system_rate_limit cfg env a s") auto
  from generate_system_rate_limit_frame(3) [of cfg env a s] g
  obtain gevs where gevs: "trace s0 = trace s @ gevs"
      "list_all (\<lambda>ev. \<not> governor_event ev \<and> \<not> dispatch_event ev) gevs"
    by auto
  have g_quiet: "wev \<notin> set gevs" "other \<notin> set gevs"
      "list_all (\<lambda>ev. \<not> strategy_event ev) gevs"
    using gevs(2) strategy_event_dispatch
    by (auto simp add: list_all_iff wev_def other_def)
  define s1 where "s1 = snd (enter rl rid s0)"
  define d where "d = generate_dispatch env rl a user args i st rid s1"
  define h where "h = generate_except rl rid (fst d) (snd d)"
  have gen: "generate cfg env a user args i st s = (fst h, generate_finally st rl rid (snd h))"
    using generate_admitted [OF g cap, of user args i st]
    by (simp add: Let_def rl_def rid_def s1_def d_def h_def)
  have tr1: "trace s1 = trace s @ gevs @ [EvEnter (app_id a) rid]"
    by (simp add: s1_def gevs)
  have res: "fst (get_workflow env a i s1) = fst (get_workflow env a i s)"
    by (simp add: get_workflow_result)
  have trw: "trace (snd (get_workflow env a i s1)) = trace s1 @ [wev]"
    by (simp add: wev_def)
  from generate_except_trace [of rl rid "fst d" "snd d"]
  obtain xs where xs: "trace (snd h) = trace (snd d) @ xs"
      "list_all (\<lambda>ev. ev = EvExit (app_id a) rid) xs"
    by (auto simp add: h_def)
  have xs_quiet: "wev \<notin> set xs" "other \<notin> set xs" "list_all (\<lambda>ev. \<not> strategy_event ev) xs"
    using xs(2) by (auto simp add: list_all_iff wev_def other_def)
  have dd: "d = (case fst (get_workflow env a i s1) of
        Inl e \<Rightarrow> (Inl e, snd (get_workflow env a i s1))
      | Inr w \<Rightarrow>
          if mode a = AppMode_ADVANCED_CHAT
          then rate_limited_call env rl AdvancedChatAppGenerator
                 (GenerateAdvancedChat a w user args i st) rid (snd (get_workflow env a i s1))
          else rate_limited_call env rl WorkflowAppGenerator
                 (GenerateWorkflow a w user args i st 0 None) rid
                 (snd (get_workflow env a i s1)))"
    unfolding d_def by (rule generate_dispatch_workflow_modes [OF md na])
  define evs where "evs = new_events s (snd (generate cfg env a user args i st s))"
  have diff: "other \<noteq> wev" "other \<noteq> EvEnter (app_id a) rid" "other \<noteq> EvExit (app_id a) rid"
      "\<not> strategy_event wev"
    by (auto simp add: other_def wev_def)
  have "wev \<in> set evs \<and> other \<notin> set evs
     \<and> (case fst (get_workflow env a i s) of
           Inl e \<Rightarrow> fst (generate cfg env a user args i st s) = Inl e
               \<and> list_all (\<lambda>ev. \<not> strategy_event ev) evs
         | Inr w \<Rightarrow>
             (if mode a = AppMode_ADVANCED_CHAT
              then EvStrategy AdvancedChatAppGenerator (GenerateAdvancedChat a w user args i st)
              else EvStrategy WorkflowAppGenerator (GenerateWorkflow a w user args i st 0 None))
               \<in> set evs)"
  proof (cases "fst (get_workflow env a i s)")
    case (Inl e)
    then have e: "\<not> provider_throttling e" "exception_subclass e"
      by (auto simp add: get_workflow_result split: if_splits option.splits)
    have d1: "d = (Inl e, snd (get_workflow env a i s1))"
      using Inl by (simp add: dd res)
    have hh: "h = (Inl e, exit rl rid (snd (get_workflow env a i s1)))"
      by (simp add: h_def d1 generate_except_other [OF e])
    have ev: "evs = gevs @ [EvEnter (app_id a) rid, wev, EvExit (app_id a) rid]
          @ (if st then [] else [EvExit (app_id a) rid])"
      by (simp add: evs_def gen hh new_events_def tr1 wev_def)
    have r: "fst (generate cfg env a user args i st s) = Inl e"
      by (simp add: gen hh)
    show ?thesis
      using g_quiet diff by (simp add: Inl r ev)
  next
    case (Inr w)
    define c where "c =
      (if mode a = AppMode_ADVANCED_CHAT
       then EvStrategy AdvancedChatAppGenerator (GenerateAdvancedChat a w user args i st)
       else EvStrategy WorkflowAppGenerator (GenerateWorkflow a w user args i st 0 None))"
    have "\<exists>tl. trace (snd d) = trace s1 @ wev # c # tl \<and> list_all governor_event tl"
      using Inr by (auto simp add: dd res c_def wev_def split: sum.splits)
    then obtain tl where tl: "trace (snd d) = trace s1 @ wev # c # tl"
        "list_all governor_event tl"
      by blast
    have tl_quiet: "wev \<notin> set tl" "other \<notin> set tl"
      using tl(2) by (auto simp add: list_all_iff wev_def other_def)
    have ev: "evs = gevs @ EvEnter (app_id a) rid # wev # c # tl @ xs
          @ (if st then [] else [EvExit (app_id a) rid])"
      by (simp add: evs_def gen new_events_def xs tl tr1)
    have oc: "other \<noteq> c"
      by (auto simp add: other_def c_def)
    show ?thesis
      using g_quiet xs_quiet tl_quiet diff oc
      by (simp add: Inr ev c_def [symmetric])
  qed
  then show ?thesis
    unfolding evs_def wev_def other_def .
qed

lemma call_strategy_fields [simp]:
  "fst (call_strategy env cls c s) = strategy env cls c"
  "trace (snd (call_strategy env cls c s)) = trace s @ [EvStrategy cls c]"
  "rate_counters (snd (call_strategy env cls c s)) = rate_counters s"
  "active_requests (snd (call_strategy env cls c s)) = active_requests s"
  "clock (snd (call_strategy env cls c s)) = clock s"
  by (simp_all add: call_strategy_def)

lemma single_step_branch:
  "(case get_workflow env a i s of
      (Inl e, s1) \<Rightarrow> (Inl e, s1)
    | (Inr w, s1) \<Rightarrow>
        (case call_strategy env cls (f w) s1 of
           (Inl e, s2) \<Rightarrow> (Inl e, s2)
         | (Inr out, s2) \<Rightarrow> (Inr (g out), s2))) =
   (case fst (get_workflow env a i s) of
      Inl e \<Rightarrow> (Inl e, snd (get_workflow env a i s))
    | Inr w \<Rightarrow>
        (case strategy env cls (f w) of Inl e \<Rightarrow> Inl e | Inr out \<Rightarrow> Inr (g out),
         snd (call_strategy env cls (f w) (snd (get_workflow env a i s)))))"
  by (simp add: split_beta call_strategy_def split: sum.splits)

lemma generate_single_iteration_frame:
  "rate_counters (snd (generate_single_iteration env a user n args st s)) = rate_counters s
   \<and> active_requests (snd (generate_single_iteration env a user n args st s)) = active_requests s
   \<and> list_all (\<lambda>ev. ev = EvGetDraftWorkflow (app_id a) \<or> strategy_event ev)
        (new_events s (snd (generate_single_iteration env a user n args st s)))"
  by (cases "fst (get_workflow env a DEBUGGER s)")
     (simp_all add: generate_single_iteration_def single_step_branch new_events_def)

lemma generate_single_loop_frame:
  "rate_counters (snd (generate_single_loop env a user n args st s)) = rate_counters s
   \<and> active_requests (snd (generate_single_loop env a user n args st s)) = active_requests s
   \<and> list_all (\<lambda>ev. ev = EvGetDraftWorkflow (app_id a) \<or> strategy_event ev)
        (new_events s (snd (generate_single_loop env a user n args st s)))"
  by (cases "fst (get_workflow env a DEBUGGER s)")
     (simp_all add: generate_single_loop_def single_step_branch new_events_def)

text \<open>Unfolding the whole model, to run it on a concrete input.\<close>

lemmas generate_defs =
  generate_def generate_system_rate_limit_def is_rate_limited_def increment_rate_limit_def
  current_count_def system_rate_limiter_def get_max_active_requests_def RateLimit_def
  generate_try_def enter_def has_capacity_def generate_dispatch_def rate_limited_call_def
  call_strategy_def rate_limit_generate_def get_workflow_def generate_finally_def exit_def
  log_event_def new_events_def Let_def
  AppMode_COMPLETION_def AppMode_AGENT_CHAT_def AppMode_CHAT_def AppMode_ADVANCED_CHAT_def
  AppMode_WORKFLOW_def

lemmas example_defs = cfg0_def app0_def env0_def state0_def

section \<open>The effective concurrency ceiling\<close>

lemma get_max_active_requests_cases:
  "get_max_active_requests cfg a =
     (let app_limit = (case max_active_requests a of None \<Rightarrow> 0 | Some v \<Rightarrow> v);
          config_limit = APP_MAX_ACTIVE_REQUESTS cfg
      in if 0 < app_limit \<and> 0 < config_limit then min app_limit config_limit
         else if 0 < app_limit then app_limit
         else if 0 < config_limit then config_limit
         else 0)"
  by (simp add: get_max_active_requests_def Let_def split: option.splits)

text \<open>
  Claim C2, as the specification words it: the ceiling is the minimum of the non-zero values
  among the application's limit and the global limit. With an application limit of \<open>-1\<close> and
  a global limit of 5 the specification's minimum is \<open>-1\<close>, while the code, which keeps the
  limits \<^verbatim>\<open>> 0\<close> only, answers 5.
\<close>

theorem get_max_active_requests_negative_limit_counterexample:
  "get_max_active_requests
     \<lparr>BILLING_ENABLED = False, APP_DAILY_RATE_LIMIT = 0, APP_MAX_ACTIVE_REQUESTS = 5\<rparr>
     \<lparr>app_id = ''a1'', tenant_id = ''t1'', mode = ''chat'', is_agent = False,
      max_active_requests = Some (- 1)\<rparr> = 5
   \<and> spec_effective_ceiling (- 1) 5 = - 1"
  by (simp add: get_max_active_requests_def spec_effective_ceiling_def)

text \<open>
  Claim C2, amended: for every application, \<^verbatim>\<open>_get_max_active_requests\<close> returns the minimum
  of the strictly positive values among the application's own limit (an absent limit counts
  as 0) and the global limit, and 0 (unlimited) if neither is positive. Where neither limit is
  negative this is the ceiling of the specification: the minimum of the non-zero values, and 0
  if both are zero.
\<close>

theorem get_max_active_requests_min_positive:
  "get_max_active_requests cfg a =
     (let app_limit = (case max_active_requests a of None \<Rightarrow> 0 | Some v \<Rightarrow> v);
          config_limit = APP_MAX_ACTIVE_REQUESTS cfg
      in if 0 < app_limit \<and> 0 < config_limit then min app_limit config_limit
         else if 0 < app_limit then app_limit
         else if 0 < config_limit then config_limit
         else 0)
   \<and> ((case max_active_requests a of None \<Rightarrow> True | Some v \<Rightarrow> 0 \<le> v)
          \<and> 0 \<le> APP_MAX_ACTIVE_REQUESTS cfg \<longrightarrow>
        get_max_active_requests cfg a =
          spec_effective_ceiling (case max_active_requests a of None \<Rightarrow> 0 | Some v \<Rightarrow> v)
            (APP_MAX_ACTIVE_REQUESTS cfg))"
  by (auto simp add: get_max_active_requests_cases spec_effective_ceiling_def Let_def
      split: option.splits)

theorem get_max_active_requests_min_positive_witness:
  "get_max_active_requests cfg0 (app0 ''chat'' False) = 2
   \<and> get_max_active_requests cfg0 (app0 ''chat'' False) = spec_effective_ceiling 2 5"
  using get_max_active_requests_min_positive [of cfg0 "app0 ''chat'' False"]
  by (simp add: cfg0_def app0_def)

section \<open>Exceptions of a strategy\<close>

text \<open>
  Claim C1, at a failing input: a streaming request of a chat application is admitted with the
  token \<open>''r1''\<close>, and the strategy raises the provider's \<^verbatim>\<open>RateLimitError\<close>. \<^verbatim>\<open>generate\<close>
  raises \<^verbatim>\<open>InvokeRateLimitError\<close> with the provider's message, but the handler of line 122
  does not call \<^verbatim>\<open>exit\<close> and the \<^verbatim>\<open>finally\<close> clause releases only when the request is not
  streaming: the token is still in the active set, and no \<^verbatim>\<open>exit\<close> was called.
\<close>

theorem generate_streaming_throttle_keeps_ticket:
  "fst (generate cfg0 (env0 (Inl (RateLimitError ''429'')) None None) (app0 ''chat'' False)
         ''u'' [] WEB_APP True (state0 0)) = Inl (InvokeRateLimitError ''429'')
   \<and> ''r1'' \<in> active_requests
        (snd (generate cfg0 (env0 (Inl (RateLimitError ''429'')) None None)
               (app0 ''chat'' False) ''u'' [] WEB_APP True (state0 0))) ''a1''
   \<and> EvExit ''a1'' ''r1'' \<notin> set (trace
        (snd (generate cfg0 (env0 (Inl (RateLimitError ''429'')) None None)
               (app0 ''chat'' False) ''u'' [] WEB_APP True (state0 0))))"
  by (simp add: generate_defs example_defs)

text \<open>
  Claim C5, as the specification words it: any exception a strategy raises, other than the
  named kinds, is caught, the ticket is released and the exception is raised again. A
  streaming request of a chat application is admitted with the token \<open>''r1''\<close> and the
  strategy raises \<^verbatim>\<open>KeyboardInterrupt\<close>, which is not a subclass of \<^verbatim>\<open>Exception\<close>: neither
  handler catches it and the \<^verbatim>\<open>finally\<close> clause does nothing for a streaming request, so the
  exception leaves \<^verbatim>\<open>generate\<close> with the token still in the active set and no \<^verbatim>\<open>exit\<close>
  called.
\<close>

theorem generate_base_exception_keeps_ticket_counterexample:
  "fst (generate cfg0 (env0 (Inl (BaseException ''KeyboardInterrupt'')) None None)
         (app0 ''chat'' False) ''u'' [] WEB_APP True (state0 0)) =
     Inl (BaseException ''KeyboardInterrupt'')
   \<and> ''r1'' \<in> active_requests
        (snd (generate cfg0 (env0 (Inl (BaseException ''KeyboardInterrupt'')) None None)
               (app0 ''chat'' False) ''u'' [] WEB_APP True (state0 0))) ''a1''
   \<and> EvExit ''a1'' ''r1'' \<notin> set (trace
        (snd (generate cfg0 (env0 (Inl (BaseException ''KeyboardInterrupt'')) None None)
               (app0 ''chat'' False) ''u'' [] WEB_APP True (state0 0))))"
  by (simp add: generate_defs example_defs)

text \<open>
  Claim C5, amended: whenever \<^verbatim>\<open>generate\<close> has invoked a strategy (so the request was
  admitted) and the strategy raised an exception other than the provider's throttling error,
  \<^verbatim>\<open>generate\<close> raises that same exception: none is swallowed. If the exception is a subclass
  of \<^verbatim>\<open>Exception\<close>, the handler of line 124 calls \<^verbatim>\<open>exit\<close> on the request token right after
  the strategy call (and the \<^verbatim>\<open>finally\<close> clause once more when the request is not
  streaming), and afterwards the token is not in the active set of the application, while
  every other ticket is as it was before the call. If it is not a subclass of \<^verbatim>\<open>Exception\<close>,
  no handler runs: only the \<^verbatim>\<open>finally\<close> clause of a request that is not streaming releases
  the ticket, and a streaming request keeps it.
\<close>

theorem generate_reraises_unexpected_exception:
  assumes inv: "EvStrategy cls c \<in>
             set (new_events s (snd (generate cfg env a user args i st s)))"
      and raises: "strategy env cls c = Inl e"
      and other: "\<not> provider_throttling e"
  shows "fst (generate cfg env a user args i st s) = Inl e
     \<and> (exception_subclass e \<longrightarrow>
          (\<exists>pre. new_events s (snd (generate cfg env a user args i st s)) =
             pre @ EvStrategy cls c # EvExit (app_id a) (gen_request_key env)
               # (if st then [] else [EvExit (app_id a) (gen_request_key env)]))
          \<and> active_requests (snd (generate cfg env a user args i st s)) =
              (active_requests s)
                (app_id a := active_requests s (app_id a) - {gen_request_key env}))
     \<and> (\<not> exception_subclass e \<longrightarrow>
          (\<exists>pre. new_events s (snd (generate cfg env a user args i st s)) =
             pre @ EvStrategy cls c
               # (if st then [] else [EvExit (app_id a) (gen_request_key env)]))
          \<and> active_requests (snd (generate cfg env a user args i st s)) =
              (active_requests s)
                (app_id a :=
                   (if st then insert (gen_request_key env) (active_requests s (app_id a))
                    else active_requests s (app_id a) - {gen_request_key env})))"
proof -
  define rl where "rl = RateLimit (app_id a) (get_max_active_requests cfg a)"
  define rid where "rid = gen_request_key env"
  have cid [simp]: "client_id rl = app_id a"
    by (simp add: rl_def RateLimit_def)
  from inv raises obtain s2 pre where
      gen: "generate cfg env a user args i st s =
        (fst (generate_except rl rid (Inl e) s2),
         generate_finally st rl rid (snd (generate_except rl rid (Inl e) s2)))"
      and tr: "trace s2 = trace s @ pre @ [EvStrategy cls c]"
      and act: "active_requests s2 =
        (active_requests s)(app_id a := insert rid (active_requests s (app_id a)))"
    unfolding rl_def rid_def by (rule generate_strategy_raised)
  show ?thesis
  proof (cases "exception_subclass e")
    case True
    have h: "generate_except rl rid (Inl e) s2 = (Inl e, exit rl rid s2)"
      by (rule generate_except_other [OF other True])
    have "new_events s (snd (generate cfg env a user args i st s)) =
        pre @ EvStrategy cls c # EvExit (app_id a) rid
          # (if st then [] else [EvExit (app_id a) rid])"
      by (simp add: gen h new_events_def tr)
    moreover have "active_requests (snd (generate cfg env a user args i st s)) =
        (active_requests s)(app_id a := active_requests s (app_id a) - {rid})"
      by (auto simp add: gen h act fun_eq_iff)
    ultimately show ?thesis
      using True unfolding rid_def [symmetric] by (simp add: gen h)
  next
    case False
    have h: "generate_except rl rid (Inl e) s2 = (Inl e, s2)"
      by (rule generate_except_uncaught [OF False])
    have "new_events s (snd (generate cfg env a user args i st s)) =
        pre @ EvStrategy cls c # (if st then [] else [EvExit (app_id a) rid])"
      by (simp add: gen h new_events_def tr)
    moreover have "active_requests (snd (generate cfg env a user args i st s)) =
        (active_requests s)
          (app_id a := (if st then insert rid (active_requests s (app_id a))
                        else active_requests s (app_id a) - {rid}))"
      by (auto simp add: gen h act fun_eq_iff)
    ultimately show ?thesis
      using False unfolding rid_def [symmetric] by (simp add: gen h)
  qed
qed

theorem generate_reraises_unexpected_exception_witness:
  "fst (generate cfg0 (env0 (Inl (OtherException ''boom'')) None None) (app0 ''chat'' False)
         ''u'' [] WEB_APP True (state0 0)) = Inl (OtherException ''boom'')
   \<and> active_requests
        (snd (generate cfg0 (env0 (Inl (OtherException ''boom'')) None None)
               (app0 ''chat'' False) ''u'' [] WEB_APP True (state0 0))) ''a1'' = {''r0''}
   \<and> fst (generate cfg0 (env0 (Inl (BaseException ''SystemExit'')) None None)
         (app0 ''chat'' False) ''u'' [] WEB_APP False (state0 0)) =
       Inl (BaseException ''SystemExit'')
   \<and> active_requests
        (snd (generate cfg0 (env0 (Inl (BaseException ''SystemExit'')) None None)
               (app0 ''chat'' False) ''u'' [] WEB_APP False (state0 0))) ''a1'' = {''r0''}"
proof -
  have h1: "EvStrategy ChatAppGenerator (Generate (app0 ''chat'' False) ''u'' [] WEB_APP True)
      \<in> set (new_events (state0 0)
           (snd (generate cfg0 (env0 (Inl (OtherException ''boom'')) None None)
                  (app0 ''chat'' False) ''u'' [] WEB_APP True (state0 0))))"
    by (simp add: generate_defs example_defs)
  have h2: "strategy (env0 (Inl (OtherException ''boom'')) None None) ChatAppGenerator
      (Generate (app0 ''chat'' False) ''u'' [] WEB_APP True) = Inl (OtherException ''boom'')"
    by (simp add: env0_def)
  have h3: "\<not> provider_throttling (OtherException ''boom'')"
    by simp
  have k1: "EvStrategy ChatAppGenerator (Generate (app0 ''chat'' False) ''u'' [] WEB_APP False)
      \<in> set (new_events (state0 0)
           (snd (generate cfg0 (env0 (Inl (BaseException ''SystemExit'')) None None)
                  (app0 ''chat'' False) ''u'' [] WEB_APP False (state0 0))))"
    by (simp add: generate_defs example_defs)
  have k2: "strategy (env0 (Inl (BaseException ''SystemExit'')) None None) ChatAppGenerator
      (Generate (app0 ''chat'' False) ''u'' [] WEB_APP False) =
      Inl (BaseException ''SystemExit'')"
    by (simp add: env0_def)
  have k3: "\<not> provider_throttling (BaseException ''SystemExit'')"
    by simp
  from generate_reraises_unexpected_exception [OF h1 h2 h3]
    generate_reraises_unexpected_exception [OF k1 k2 k3]
  show ?thesis
    by (simp add: example_defs)
qed

section \<open>Release on a request that is not streaming\<close>

text \<open>
  Claim C7, as the specification words it: on every call that is not streaming, \<^verbatim>\<open>exit\<close> is
  invoked on every outcome. A call for a tenant on the sandbox plan whose quota is used up
  is rejected by the check of lines 48-52, before the \<^verbatim>\<open>try\<close> statement: the log has the
  plan lookup and the check only, and no \<^verbatim>\<open>exit\<close> is called.
\<close>

theorem generate_non_streaming_quota_rejection_counterexample:
  "fst (generate cfg0 (env0 (Inr (Blocking [(''answer'', ''hi'')])) None None)
         (app0 ''chat'' False) ''u'' [] WEB_APP False (state0 3)) =
     Inl (InvokeRateLimitError (quota_message cfg0))
   \<and> trace (snd (generate cfg0 (env0 (Inr (Blocking [(''answer'', ''hi'')])) None None)
                    (app0 ''chat'' False) ''u'' [] WEB_APP False (state0 3))) =
         [EvGetInfo ''t1'', EvIsRateLimited ''t1'']
   \<and> EvExit ''a1'' ''r1'' \<notin> set (trace
        (snd (generate cfg0 (env0 (Inr (Blocking [(''answer'', ''hi'')])) None None)
               (app0 ''chat'' False) ''u'' [] WEB_APP False (state0 3))))"
  by (simp add: generate_defs example_defs)

text \<open>
  Claim C7, amended: for every call of \<^verbatim>\<open>generate\<close> with \<^verbatim>\<open>streaming = False\<close> that reaches
  the \<^verbatim>\<open>try\<close> statement (the tenant check of lines 44-53, which comes before it, has not
  raised), the last call the service makes is \<^verbatim>\<open>exit\<close> on the request token, after
  \<^verbatim>\<open>enter\<close> and after everything the body and the handlers did, whatever the outcome was (a
  normal return, a rejection by \<^verbatim>\<open>enter\<close>, or any exception); afterwards the token is not in
  the active set of the application. When the tenant check rejects the call, no ticket has
  been issued and \<^verbatim>\<open>exit\<close> is not invoked: the call fails with \<^verbatim>\<open>InvokeRateLimitError\<close> and
  the state is the old one with the two log entries of the plan lookup and the check.
\<close>

theorem generate_non_streaming_exit_last:
  "(fst (generate_system_rate_limit cfg env a s) = Inr () \<longrightarrow>
      (\<exists>pre mid. new_events s (snd (generate cfg env a user args i False s)) =
          pre @ EvEnter (app_id a) (gen_request_key env) # mid
            @ [EvExit (app_id a) (gen_request_key env)])
      \<and> gen_request_key env \<notin>
          active_requests (snd (generate cfg env a user args i False s)) (app_id a))
   \<and> (fst (generate_system_rate_limit cfg env a s) \<noteq> Inr () \<longrightarrow>
      generate cfg env a user args i False s =
        (Inl (InvokeRateLimitError (quota_message cfg)),
         s\<lparr>trace := trace s @ [EvGetInfo (tenant_id a), EvIsRateLimited (tenant_id a)]\<rparr>))"
proof (intro conjI impI)
  assume passed: "fst (generate_system_rate_limit cfg env a s) = Inr ()"
  obtain s0 where gate: "generate_system_rate_limit cfg env a s = (Inr (), s0)"
    using passed by (cases "generate_system_rate_limit cfg env a s") auto
  from generate_system_rate_limit_frame(3) [of cfg env a s] gate
  obtain gevs where gevs: "trace s0 = trace s @ gevs"
    by auto
  from gate obtain r s2 mid where
      gen: "generate cfg env a user args i False s =
        (r, generate_finally False (RateLimit (app_id a) (get_max_active_requests cfg a))
              (gen_request_key env) s2)"
      and tr: "trace s2 = trace s0 @ EvEnter (app_id a) (gen_request_key env) # mid"
    by (rule generate_passed)
  have "new_events s (snd (generate cfg env a user args i False s)) =
      gevs @ EvEnter (app_id a) (gen_request_key env) # mid
        @ [EvExit (app_id a) (gen_request_key env)]"
    by (simp add: gen tr gevs new_events_def RateLimit_def)
  then show "\<exists>pre mid. new_events s (snd (generate cfg env a user args i False s)) =
      pre @ EvEnter (app_id a) (gen_request_key env) # mid
        @ [EvExit (app_id a) (gen_request_key env)]"
    by blast
  show "gen_request_key env \<notin>
      active_requests (snd (generate cfg env a user args i False s)) (app_id a)"
    by (simp add: gen RateLimit_def)
next
  assume "fst (generate_system_rate_limit cfg env a s) \<noteq> Inr ()"
  then have "BILLING_ENABLED cfg \<and> billing_plan env (tenant_id a) = ''sandbox''
      \<and> APP_DAILY_RATE_LIMIT cfg \<le> int (current_count s (tenant_id a))"
    by (simp add: generate_system_rate_limit_cases split: if_splits)
  then show "generate cfg env a user args i False s =
      (Inl (InvokeRateLimitError (quota_message cfg)),
       s\<lparr>trace := trace s @ [EvGetInfo (tenant_id a), EvIsRateLimited (tenant_id a)]\<rparr>)"
    by (simp add: generate_def generate_system_rate_limit_cases log_event_def)
qed

theorem generate_non_streaming_exit_last_witness:
  "last (trace (snd (generate cfg0 (env0 (Inr (Blocking [(''answer'', ''hi'')])) None None)
       (app0 ''chat'' False) ''u'' [] WEB_APP False (state0 0)))) = EvExit ''a1'' ''r1''
   \<and> ''r1'' \<notin> active_requests
        (snd (generate cfg0 (env0 (Inr (Blocking [(''answer'', ''hi'')])) None None)
               (app0 ''chat'' False) ''u'' [] WEB_APP False (state0 0))) ''a1''
   \<and> snd (generate cfg0 (env0 (Inr (Blocking [(''answer'', ''hi'')])) None None)
             (app0 ''chat'' False) ''u'' [] WEB_APP False (state0 3)) =
       (state0 3)\<lparr>trace := [EvGetInfo ''t1'', EvIsRateLimited ''t1'']\<rparr>"
proof -
  let ?env = "env0 (Inr (Blocking [(''answer'', ''hi'')])) None None"
  let ?a = "app0 ''chat'' False"
  have h: "fst (generate_system_rate_limit cfg0 ?env ?a (state0 0)) = Inr ()"
    by (simp add: generate_defs example_defs)
  have k: "fst (generate_system_rate_limit cfg0 ?env ?a (state0 3)) \<noteq> Inr ()"
    by (simp add: generate_defs example_defs)
  have p: "(\<exists>pre mid. new_events (state0 0)
        (snd (generate cfg0 ?env ?a ''u'' [] WEB_APP False (state0 0))) =
          pre @ EvEnter (app_id ?a) (gen_request_key ?env) # mid
            @ [EvExit (app_id ?a) (gen_request_key ?env)])
      \<and> gen_request_key ?env \<notin>
          active_requests (snd (generate cfg0 ?env ?a ''u'' [] WEB_APP False (state0 0)))
            (app_id ?a)"
    using generate_non_streaming_exit_last [where cfg = cfg0 and env = ?env and a = ?a
        and s = "state0 0" and user = "''u''" and args = "[]" and i = WEB_APP] h
    by blast
  have q: "generate cfg0 ?env ?a ''u'' [] WEB_APP False (state0 3) =
      (Inl (InvokeRateLimitError (quota_message cfg0)),
       (state0 3)\<lparr>trace := trace (state0 3)
          @ [EvGetInfo (tenant_id ?a), EvIsRateLimited (tenant_id ?a)]\<rparr>)"
    using generate_non_streaming_exit_last [where cfg = cfg0 and env = ?env and a = ?a
        and s = "state0 3" and user = "''u''" and args = "[]" and i = WEB_APP] k
    by blast
  have tr0: "trace (state0 0) = []" "trace (state0 3) = []"
    by (simp_all add: state0_def)
  from p q show ?thesis
    by (auto simp add: new_events_def tr0 app0_def env0_def dest: arg_cong [where f = last])
qed

section \<open>The tenant rate limit\<close>

text \<open>
  Claim C4: \<^verbatim>\<open>generate\<close> consults the system rate limiter only when billing is enabled and
  the plan of the tenant is \<^verbatim>\<open>sandbox\<close>: otherwise no call of the limiter is logged and the
  counters are as before. When the condition holds and the tenant is rate limited, the call
  fails with \<^verbatim>\<open>InvokeRateLimitError\<close> and the state is the old one with two log entries
  (the plan lookup and the check): no increment, no ticket, no strategy. When the condition
  holds and the tenant is not rate limited, the log starts with the plan lookup, the check,
  one increment and then \<^verbatim>\<open>enter\<close>, no later entry is a call of the limiter, and the
  counter of the tenant has grown by exactly one.
\<close>

theorem generate_tenant_rate_limit_gate:
  "(\<not> (BILLING_ENABLED cfg \<and> billing_plan env (tenant_id a) = ''sandbox'') \<longrightarrow>
      list_all (\<lambda>ev. \<not> rate_limiter_event ev)
        (new_events s (snd (generate cfg env a user args i st s)))
      \<and> rate_counters (snd (generate cfg env a user args i st s)) = rate_counters s)
   \<and> (BILLING_ENABLED cfg \<and> billing_plan env (tenant_id a) = ''sandbox''
        \<and> APP_DAILY_RATE_LIMIT cfg \<le> int (current_count s (tenant_id a)) \<longrightarrow>
      generate cfg env a user args i st s =
        (Inl (InvokeRateLimitError (quota_message cfg)),
         s\<lparr>trace := trace s @ [EvGetInfo (tenant_id a), EvIsRateLimited (tenant_id a)]\<rparr>))
   \<and> (BILLING_ENABLED cfg \<and> billing_plan env (tenant_id a) = ''sandbox''
        \<and> \<not> APP_DAILY_RATE_LIMIT cfg \<le> int (current_count s (tenant_id a)) \<longrightarrow>
      (\<exists>rest. new_events s (snd (generate cfg env a user args i st s)) =
          [EvGetInfo (tenant_id a), EvIsRateLimited (tenant_id a),
           EvIncrementRateLimit (tenant_id a), EvEnter (app_id a) (gen_request_key env)] @ rest
        \<and> list_all (\<lambda>ev. \<not> rate_limiter_event ev) rest)
      \<and> current_count (snd (generate cfg env a user args i st s)) (tenant_id a) =
          Suc (current_count s (tenant_id a)))"
proof (intro conjI impI)
  assume off: "\<not> (BILLING_ENABLED cfg \<and> billing_plan env (tenant_id a) = ''sandbox'')"
  define s0 where "s0 = (if BILLING_ENABLED cfg then log_event (EvGetInfo (tenant_id a)) s else s)"
  have gate: "generate_system_rate_limit cfg env a s = (Inr (), s0)"
    using off by (auto simp add: generate_system_rate_limit_cases s0_def)
  then obtain r s2 mid where
      gen: "generate cfg env a user args i st s =
        (r, generate_finally st (RateLimit (app_id a) (get_max_active_requests cfg a))
              (gen_request_key env) s2)"
      and tr: "trace s2 = trace s0 @ EvEnter (app_id a) (gen_request_key env) # mid"
      and mid: "list_all (\<lambda>ev. dispatch_event ev \<or> ev = EvExit (app_id a) (gen_request_key env)) mid"
      and rc: "rate_counters s2 = rate_counters s0"
    by (rule generate_passed)
  have "list_all (\<lambda>ev. \<not> rate_limiter_event ev) mid"
    using mid dispatch_event_not_rate_limiter by (auto simp add: list_all_iff)
  then show "list_all (\<lambda>ev. \<not> rate_limiter_event ev)
      (new_events s (snd (generate cfg env a user args i st s)))"
    by (simp add: gen tr new_events_def s0_def RateLimit_def)
  show "rate_counters (snd (generate cfg env a user args i st s)) = rate_counters s"
    by (simp add: gen rc s0_def)
next
  assume "BILLING_ENABLED cfg \<and> billing_plan env (tenant_id a) = ''sandbox''
      \<and> APP_DAILY_RATE_LIMIT cfg \<le> int (current_count s (tenant_id a))"
  then show "generate cfg env a user args i st s =
      (Inl (InvokeRateLimitError (quota_message cfg)),
       s\<lparr>trace := trace s @ [EvGetInfo (tenant_id a), EvIsRateLimited (tenant_id a)]\<rparr>)"
    by (simp add: generate_def generate_system_rate_limit_cases log_event_def)
next
  assume on: "BILLING_ENABLED cfg \<and> billing_plan env (tenant_id a) = ''sandbox''
      \<and> \<not> APP_DAILY_RATE_LIMIT cfg \<le> int (current_count s (tenant_id a))"
  define s0 where "s0 = increment_rate_limit (system_rate_limiter cfg) (tenant_id a)
      (log_event (EvIsRateLimited (tenant_id a)) (log_event (EvGetInfo (tenant_id a)) s))"
  have gate: "generate_system_rate_limit cfg env a s = (Inr (), s0)"
    using on by (simp add: generate_system_rate_limit_cases s0_def)
  then obtain r s2 mid where
      gen: "generate cfg env a user args i st s =
        (r, generate_finally st (RateLimit (app_id a) (get_max_active_requests cfg a))
              (gen_request_key env) s2)"
      and tr: "trace s2 = trace s0 @ EvEnter (app_id a) (gen_request_key env) # mid"
      and mid: "list_all (\<lambda>ev. dispatch_event ev \<or> ev = EvExit (app_id a) (gen_request_key env)) mid"
      and rc: "rate_counters s2 = rate_counters s0"
      and ck: "clock s2 = clock s0"
    by (rule generate_passed)
  have quiet: "list_all (\<lambda>ev. \<not> rate_limiter_event ev) mid"
    using mid dispatch_event_not_rate_limiter by (auto simp add: list_all_iff)
  have "new_events s (snd (generate cfg env a user args i st s)) =
      [EvGetInfo (tenant_id a), EvIsRateLimited (tenant_id a),
       EvIncrementRateLimit (tenant_id a), EvEnter (app_id a) (gen_request_key env)]
      @ (mid @ (if st then [] else [EvExit (app_id a) (gen_request_key env)]))"
    by (simp add: gen tr new_events_def s0_def RateLimit_def)
  moreover have "list_all (\<lambda>ev. \<not> rate_limiter_event ev)
      (mid @ (if st then [] else [EvExit (app_id a) (gen_request_key env)]))"
    using quiet by simp
  ultimately show "\<exists>rest. new_events s (snd (generate cfg env a user args i st s)) =
      [EvGetInfo (tenant_id a), EvIsRateLimited (tenant_id a),
       EvIncrementRateLimit (tenant_id a), EvEnter (app_id a) (gen_request_key env)] @ rest
      \<and> list_all (\<lambda>ev. \<not> rate_limiter_event ev) rest"
    by blast
  have "current_count (snd (generate cfg env a user args i st s)) (tenant_id a) =
      current_count s0 (tenant_id a)"
    by (rule current_count_cong) (simp_all add: gen rc ck)
  also have "\<dots> = Suc (current_count s (tenant_id a))"
    by (simp add: s0_def current_count_increment system_rate_limiter_def)
  finally show "current_count (snd (generate cfg env a user args i st s)) (tenant_id a) =
      Suc (current_count s (tenant_id a))" .
qed

theorem generate_tenant_rate_limit_gate_witness:
  "rate_counters
       (snd (generate (cfg0\<lparr>BILLING_ENABLED := False\<rparr>) (env0 (Inr (EventStream [''x''])) None None)
              (app0 ''chat'' False) ''u'' [] WEB_APP True (state0 3))) = rate_counters (state0 3)
   \<and> fst (generate cfg0 (env0 (Inr (EventStream [''x''])) None None) (app0 ''chat'' False)
            ''u'' [] WEB_APP True (state0 3)) = Inl (InvokeRateLimitError (quota_message cfg0))
   \<and> trace (snd (generate cfg0 (env0 (Inr (EventStream [''x''])) None None)
                    (app0 ''chat'' False) ''u'' [] WEB_APP True (state0 3))) =
         [EvGetInfo ''t1'', EvIsRateLimited ''t1'']
   \<and> current_count
         (snd (generate cfg0 (env0 (Inr (EventStream [''x''])) None None)
                (app0 ''chat'' False) ''u'' [] WEB_APP True (state0 2))) ''t1'' = 3"
proof -
  let ?env = "env0 (Inr (EventStream [''x''])) None None"
  let ?a = "app0 ''chat'' False"
  have h1: "\<not> (BILLING_ENABLED (cfg0\<lparr>BILLING_ENABLED := False\<rparr>)
      \<and> billing_plan ?env (tenant_id ?a) = ''sandbox'')"
    by simp
  have h2: "BILLING_ENABLED cfg0 \<and> billing_plan ?env (tenant_id ?a) = ''sandbox''
      \<and> APP_DAILY_RATE_LIMIT cfg0 \<le> int (current_count (state0 3) (tenant_id ?a))"
    by (simp add: example_defs current_count_def)
  have h3: "BILLING_ENABLED cfg0 \<and> billing_plan ?env (tenant_id ?a) = ''sandbox''
      \<and> \<not> APP_DAILY_RATE_LIMIT cfg0 \<le> int (current_count (state0 2) (tenant_id ?a))"
    by (simp add: example_defs current_count_def)
  have c2: "current_count (state0 2) ''t1'' = 2"
    by (simp add: example_defs current_count_def)
  have r1: "rate_counters (snd (generate (cfg0\<lparr>BILLING_ENABLED := False\<rparr>) ?env ?a
      ''u'' [] WEB_APP True (state0 3))) = rate_counters (state0 3)"
    using generate_tenant_rate_limit_gate [where cfg = "cfg0\<lparr>BILLING_ENABLED := False\<rparr>" and env = ?env and a = ?a
        and s = "state0 3" and user = "''u''" and args = "[]" and i = WEB_APP and st = True]
      h1
    by blast
  have r2: "generate cfg0 ?env ?a ''u'' [] WEB_APP True (state0 3) =
      (Inl (InvokeRateLimitError (quota_message cfg0)),
       (state0 3)\<lparr>trace := trace (state0 3)
          @ [EvGetInfo (tenant_id ?a), EvIsRateLimited (tenant_id ?a)]\<rparr>)"
    using generate_tenant_rate_limit_gate [where cfg = cfg0 and env = ?env and a = ?a
        and s = "state0 3" and user = "''u''" and args = "[]" and i = WEB_APP and st = True]
      h2
    by blast
  have r3: "current_count (snd (generate cfg0 ?env ?a ''u'' [] WEB_APP True (state0 2)))
      (tenant_id ?a) = Suc (current_count (state0 2) (tenant_id ?a))"
    using generate_tenant_rate_limit_gate [where cfg = cfg0 and env = ?env and a = ?a
        and s = "state0 2" and user = "''u''" and args = "[]" and i = WEB_APP and st = True]
      h3
    by blast
  have t1: "tenant_id ?a = ''t1''"
    by (simp add: app0_def)
  show ?thesis
    using r1 r2 r3 by (simp add: t1 c2) (simp add: state0_def)
qed

section \<open>A mode outside the supported set\<close>

text \<open>
  Claim C8, as the specification words it: for every mode outside the supported set, no
  strategy is invoked. An application whose mode is \<open>''foo''\<close> and whose \<^verbatim>\<open>is_agent\<close> is true
  takes the branch of line 70 (\<^verbatim>\<open>mode == AGENT_CHAT or app_model.is_agent\<close>): the agent-chat
  strategy is invoked and the call returns its stream.
\<close>

theorem generate_invalid_mode_agent_counterexample:
  "fst (generate cfg0 (env0 (Inr (EventStream [''x''])) None None) (app0 ''foo'' True)
         ''u'' [] WEB_APP True (state0 0)) = Inr (RateLimitGenerator ''a1'' ''r1'' [''x''])
   \<and> EvStrategy AgentChatAppGenerator (Generate (app0 ''foo'' True) ''u'' [] WEB_APP True)
       \<in> set (trace (snd (generate cfg0 (env0 (Inr (EventStream [''x''])) None None)
                (app0 ''foo'' True) ''u'' [] WEB_APP True (state0 0))))"
  by (simp add: generate_defs example_defs)

text \<open>
  Claim C8, amended: for every mode outside the five supported values, on an application whose
  \<^verbatim>\<open>is_agent\<close> is false, no strategy is invoked and \<^verbatim>\<open>generate\<close> fails: with
  \<^verbatim>\<open>InvokeRateLimitError\<close> when the tenant check rejects the call, with the governor's
  rejection when the application has no free slot, and otherwise with
  \<^verbatim>\<open>ValueError("Invalid app mode <mode>")\<close>, which carries the offending mode.
\<close>

theorem generate_invalid_mode:
  assumes "mode a \<noteq> AppMode_COMPLETION" "mode a \<noteq> AppMode_AGENT_CHAT"
      "mode a \<noteq> AppMode_CHAT" "mode a \<noteq> AppMode_ADVANCED_CHAT" "mode a \<noteq> AppMode_WORKFLOW"
      "\<not> is_agent a"
  shows "list_all (\<lambda>ev. \<not> strategy_event ev)
        (new_events s (snd (generate cfg env a user args i st s)))
     \<and> fst (generate cfg env a user args i st s) =
        (if BILLING_ENABLED cfg \<and> billing_plan env (tenant_id a) = ''sandbox''
            \<and> APP_DAILY_RATE_LIMIT cfg \<le> int (current_count s (tenant_id a))
         then Inl (InvokeRateLimitError (quota_message cfg))
         else if \<not> has_capacity (RateLimit (app_id a) (get_max_active_requests cfg a)) s
         then Inl (AppInvokeQuotaExceededError (app_id a) (get_max_active_requests cfg a))
         else Inl (ValueError (''Invalid app mode '' @ mode a)))"
proof -
  obtain g s0 where gate: "generate_system_rate_limit cfg env a s = (g, s0)"
    by (cases "generate_system_rate_limit cfg env a s")
  from generate_system_rate_limit_frame(3) [of cfg env a s] gate
  obtain gevs where gevs: "trace s0 = trace s @ gevs"
      "list_all (\<lambda>ev. \<not> governor_event ev \<and> \<not> dispatch_event ev) gevs"
    by auto
  have quiet: "list_all (\<lambda>ev. \<not> strategy_event ev) gevs"
    using gevs(2) strategy_event_dispatch by (auto simp add: list_all_iff)
  show ?thesis
  proof (cases "BILLING_ENABLED cfg \<and> billing_plan env (tenant_id a) = ''sandbox''
            \<and> APP_DAILY_RATE_LIMIT cfg \<le> int (current_count s (tenant_id a))")
    case True
    then show ?thesis
      by (simp add: generate_def generate_system_rate_limit_cases new_events_def)
  next
    case False
    then have g: "g = Inr ()"
      using gate by (auto simp add: generate_system_rate_limit_cases split: if_splits)
    show ?thesis
    proof (cases "has_capacity (RateLimit (app_id a) (get_max_active_requests cfg a)) s")
      case True
      from generate_admitted [OF gate [unfolded g] True, of user args i st]
      show ?thesis
        using False True quiet gevs(1)
        by (simp add: Let_def generate_dispatch_invalid [OF assms] new_events_def
            RateLimit_def)
    next
      case nocap: False
      from generate_not_admitted [OF gate [unfolded g] nocap, of user args i st]
      show ?thesis
        using False nocap quiet gevs(1)
        by (simp add: Let_def new_events_def RateLimit_def)
    qed
  qed
qed

theorem generate_invalid_mode_witness:
  "fst (generate cfg0 (env0 (Inr (EventStream [''x''])) None None) (app0 ''foo'' False)
         ''u'' [] WEB_APP True (state0 0)) = Inl (ValueError ''Invalid app mode foo'')
   \<and> list_all (\<lambda>ev. \<not> strategy_event ev)
        (new_events (state0 0)
           (snd (generate cfg0 (env0 (Inr (EventStream [''x''])) None None) (app0 ''foo'' False)
                  ''u'' [] WEB_APP True (state0 0))))"
proof -
  let ?a = "app0 ''foo'' False"
  have m: "mode ?a \<noteq> AppMode_COMPLETION" "mode ?a \<noteq> AppMode_AGENT_CHAT"
      "mode ?a \<noteq> AppMode_CHAT" "mode ?a \<noteq> AppMode_ADVANCED_CHAT"
      "mode ?a \<noteq> AppMode_WORKFLOW" "\<not> is_agent ?a"
    by (simp_all add: app0_def AppMode_COMPLETION_def AppMode_AGENT_CHAT_def AppMode_CHAT_def
        AppMode_ADVANCED_CHAT_def AppMode_WORKFLOW_def)
  have q: "\<not> APP_DAILY_RATE_LIMIT cfg0 \<le> int (current_count (state0 0) (tenant_id ?a))"
    by (simp add: example_defs current_count_def)
  have cap: "has_capacity (RateLimit (app_id ?a) (get_max_active_requests cfg0 ?a)) (state0 0)"
    by (simp add: example_defs has_capacity_def RateLimit_def get_max_active_requests_def)
  from generate_invalid_mode [OF m, of "state0 0" cfg0 "env0 (Inr (EventStream [''x''])) None None"
      "''u''" "[]" WEB_APP True]
  show ?thesis
    using q cap by (simp add: app0_def)
qed

section \<open>The workflow of the modes advanced-chat and workflow\<close>

text \<open>
  Claim C6, as the specification words it: for the mode workflow and a normal invocation
  source, \<^verbatim>\<open>generate\<close> resolves the published workflow and fails when there is none. An
  application whose mode is \<open>''workflow''\<close> and whose \<^verbatim>\<open>is_agent\<close> is true takes the branch of
  line 70 before the mode workflow is looked at: no workflow is resolved, the agent-chat
  strategy is invoked, and the call returns its stream although no workflow is published.
\<close>

theorem generate_workflow_mode_agent_counterexample:
  "fst (generate cfg0 (env0 (Inr (EventStream [''x''])) None None) (app0 ''workflow'' True)
         ''u'' [] WEB_APP True (state0 0)) = Inr (RateLimitGenerator ''a1'' ''r1'' [''x''])
   \<and> EvGetPublishedWorkflow ''a1''
       \<notin> set (trace (snd (generate cfg0 (env0 (Inr (EventStream [''x''])) None None)
                (app0 ''workflow'' True) ''u'' [] WEB_APP True (state0 0))))
   \<and> EvStrategy AgentChatAppGenerator (Generate (app0 ''workflow'' True) ''u'' [] WEB_APP True)
       \<in> set (trace (snd (generate cfg0 (env0 (Inr (EventStream [''x''])) None None)
                (app0 ''workflow'' True) ''u'' [] WEB_APP True (state0 0))))"
  by (simp add: generate_defs example_defs)

text \<open>
  Claim C6, amended: for the modes advanced-chat and workflow, on an application whose
  \<^verbatim>\<open>is_agent\<close> is false, a request that has passed the tenant check and has been admitted by
  the governor resolves the published workflow (and not the draft) when the invocation source
  is not the debugger, and the draft (and not the published workflow) when it is. When the
  workflow asked for is absent, \<^verbatim>\<open>generate\<close> fails with \<^verbatim>\<open>ValueError("Workflow not published")\<close>
  for a normal source and with \<^verbatim>\<open>ValueError("Workflow not initialized")\<close> for the debugger,
  and no strategy is invoked; when it is there, the strategy of the mode is invoked with it.
\<close>

theorem generate_resolves_workflow:
  assumes md: "mode a = AppMode_ADVANCED_CHAT \<or> mode a = AppMode_WORKFLOW"
      and na: "\<not> is_agent a"
      and gate: "fst (generate_system_rate_limit cfg env a s) = Inr ()"
      and cap: "has_capacity (RateLimit (app_id a) (get_max_active_requests cfg a)) s"
  shows "(i \<noteq> DEBUGGER \<longrightarrow>
        EvGetPublishedWorkflow (app_id a)
          \<in> set (new_events s (snd (generate cfg env a user args i st s)))
        \<and> EvGetDraftWorkflow (app_id a)
          \<notin> set (new_events s (snd (generate cfg env a user args i st s)))
        \<and> (case get_published_workflow env a of
              None \<Rightarrow>
                fst (generate cfg env a user args i st s) =
                  Inl (ValueError ''Workflow not published'')
                \<and> list_all (\<lambda>ev. \<not> strategy_event ev)
                     (new_events s (snd (generate cfg env a user args i st s)))
            | Some w \<Rightarrow>
                (if mode a = AppMode_ADVANCED_CHAT
                 then EvStrategy AdvancedChatAppGenerator
                        (GenerateAdvancedChat a w user args i st)
                 else EvStrategy WorkflowAppGenerator
                        (GenerateWorkflow a w user args i st 0 None))
                  \<in> set (new_events s (snd (generate cfg env a user args i st s)))))
     \<and> (i = DEBUGGER \<longrightarrow>
        EvGetDraftWorkflow (app_id a)
          \<in> set (new_events s (snd (generate cfg env a user args i st s)))
        \<and> EvGetPublishedWorkflow (app_id a)
          \<notin> set (new_events s (snd (generate cfg env a user args i st s)))
        \<and> (case get_draft_workflow env a of
              None \<Rightarrow>
                fst (generate cfg env a user args i st s) =
                  Inl (ValueError ''Workflow not initialized'')
                \<and> list_all (\<lambda>ev. \<not> strategy_event ev)
                     (new_events s (snd (generate cfg env a user args i st s)))
            | Some w \<Rightarrow>
                (if mode a = AppMode_ADVANCED_CHAT
                 then EvStrategy AdvancedChatAppGenerator
                        (GenerateAdvancedChat a w user args i st)
                 else EvStrategy WorkflowAppGenerator
                        (GenerateWorkflow a w user args i st 0 None))
                  \<in> set (new_events s (snd (generate cfg env a user args i st s)))))"
proof (cases "i = DEBUGGER")
  case True
  with generate_workflow_modes [OF md na gate cap, of i user args st]
  show ?thesis
    by (cases "get_draft_workflow env a") (simp_all add: get_workflow_result)
next
  case False
  with generate_workflow_modes [OF md na gate cap, of i user args st]
  show ?thesis
    by (cases "get_published_workflow env a") (simp_all add: get_workflow_result)
qed

theorem generate_resolves_workflow_witness:
  "fst (generate cfg0 (env0 (Inr (EventStream [''x''])) None None) (app0 ''workflow'' False)
         ''u'' [] WEB_APP True (state0 0)) = Inl (ValueError ''Workflow not published'')
   \<and> fst (generate cfg0 (env0 (Inr (EventStream [''x''])) None None)
            (app0 ''advanced-chat'' False) ''u'' [] DEBUGGER True (state0 0)) =
       Inl (ValueError ''Workflow not initialized'')
   \<and> EvStrategy WorkflowAppGenerator
        (GenerateWorkflow (app0 ''workflow'' False) ''w1'' ''u'' [] WEB_APP True 0 None)
       \<in> set (new_events (state0 0)
            (snd (generate cfg0 (env0 (Inr (EventStream [''x''])) None (Some ''w1''))
                   (app0 ''workflow'' False) ''u'' [] WEB_APP True (state0 0))))"
proof -
  let ?w = "app0 ''workflow'' False"
  let ?c = "app0 ''advanced-chat'' False"
  have mw: "mode ?w = AppMode_ADVANCED_CHAT \<or> mode ?w = AppMode_WORKFLOW" "\<not> is_agent ?w"
    and mc: "mode ?c = AppMode_ADVANCED_CHAT \<or> mode ?c = AppMode_WORKFLOW" "\<not> is_agent ?c"
    and nw: "mode ?w \<noteq> AppMode_ADVANCED_CHAT"
    by (simp_all add: app0_def AppMode_ADVANCED_CHAT_def AppMode_WORKFLOW_def)
  have g: "fst (generate_system_rate_limit cfg0 env (app0 m False) (state0 0)) = Inr ()"
    if "billing_plan env = (\<lambda>t. ''sandbox'')" for env m
    using that by (simp add: generate_system_rate_limit_cases example_defs current_count_def)
  have cap: "has_capacity (RateLimit (app_id (app0 m False))
      (get_max_active_requests cfg0 (app0 m False))) (state0 0)" for m
    by (simp add: example_defs has_capacity_def RateLimit_def get_max_active_requests_def)
  have b: "billing_plan (env0 r d p) = (\<lambda>t. ''sandbox'')" for r d p
    by (simp add: env0_def)
  let ?e0 = "env0 (Inr (EventStream [''x''])) None None"
  let ?e1 = "env0 (Inr (EventStream [''x''])) None (Some ''w1'')"
  note r1 = generate_resolves_workflow [where a = ?w and cfg = cfg0 and env = ?e0 and s = "state0 0"
      and i = WEB_APP and user = "''u''" and args = "[]" and st = True, OF mw g [OF b] cap]
  note r2 = generate_resolves_workflow [where a = ?c and cfg = cfg0 and env = ?e0 and s = "state0 0"
      and i = DEBUGGER and user = "''u''" and args = "[]" and st = True, OF mc g [OF b] cap]
  note r3 = generate_resolves_workflow [where a = ?w and cfg = cfg0 and env = ?e1 and s = "state0 0"
      and i = WEB_APP and user = "''u''" and args = "[]" and st = True, OF mw g [OF b] cap]
  from r1 r2 r3 show ?thesis
    using nw by (simp add: env0_def)
qed

section \<open>The entry points that run a single iteration or loop\<close>

text \<open>
  Claim C3, as the specification words it: \<^verbatim>\<open>generate_single_iteration\<close> and
  \<^verbatim>\<open>generate_single_loop\<close> are subject to the admission rules of \<^verbatim>\<open>generate\<close>. For a tenant
  on the sandbox plan whose daily quota is used up, \<^verbatim>\<open>generate\<close> fails with
  \<^verbatim>\<open>InvokeRateLimitError\<close>; the two entry points, on the same application and state, make no
  check and issue no ticket: they resolve the draft workflow, invoke the strategy and return
  its stream, and the state is the old one but for these two log entries.
\<close>

theorem generate_single_step_no_admission_counterexample:
  "fst (generate cfg0 (env0 (Inr (EventStream [''x''])) (Some ''w1'') None)
         (app0 ''workflow'' False) ''u'' [] DEBUGGER True (state0 3)) =
     Inl (InvokeRateLimitError (quota_message cfg0))
   \<and> generate_single_iteration (env0 (Inr (EventStream [''x''])) (Some ''w1'') None)
         (app0 ''workflow'' False) ''u'' ''n1'' [] True (state0 3) =
       (Inr (EventStream [''x'']),
        (state0 3)\<lparr>trace :=
           [EvGetDraftWorkflow ''a1'',
            EvStrategy WorkflowAppGenerator
              (SingleIterationGenerate (app0 ''workflow'' False) ''w1'' ''n1'' ''u'' [] True)]\<rparr>)
   \<and> generate_single_loop (env0 (Inr (EventStream [''x''])) (Some ''w1'') None)
         (app0 ''workflow'' False) ''u'' ''n1'' [] True (state0 3) =
       (Inr (EventStream [''x'']),
        (state0 3)\<lparr>trace :=
           [EvGetDraftWorkflow ''a1'',
            EvStrategy WorkflowAppGenerator
              (SingleLoopGenerate (app0 ''workflow'' False) ''w1'' ''n1'' ''u'' [] True)]\<rparr>)"
  by (simp add: generate_defs generate_single_iteration_def generate_single_loop_def
      example_defs)

text \<open>
  Claim C3, amended: \<^verbatim>\<open>generate_single_iteration\<close> and \<^verbatim>\<open>generate_single_loop\<close> are not
  subject to the admission rules of \<^verbatim>\<open>generate\<close>. On every invocation the counters of the
  system rate limiter and the active sets of the governor are left as they were, and the only
  calls made are the lookup of the draft workflow and the call of the strategy: no plan
  lookup, no rate-limit check, no increment, no \<^verbatim>\<open>enter\<close> and no \<^verbatim>\<open>exit\<close>.
\<close>

theorem generate_single_step_bypasses_limiters:
  "rate_counters (snd (generate_single_iteration env a user n args st s)) = rate_counters s
   \<and> active_requests (snd (generate_single_iteration env a user n args st s)) = active_requests s
   \<and> list_all (\<lambda>ev. ev = EvGetDraftWorkflow (app_id a) \<or> strategy_event ev)
        (new_events s (snd (generate_single_iteration env a user n args st s)))
   \<and> rate_counters (snd (generate_single_loop env a user n args st s)) = rate_counters s
   \<and> active_requests (snd (generate_single_loop env a user n args st s)) = active_requests s
   \<and> list_all (\<lambda>ev. ev = EvGetDraftWorkflow (app_id a) \<or> strategy_event ev)
        (new_events s (snd (generate_single_loop env a user n args st s)))"
  using generate_single_iteration_frame [of env a user n args st s]
    generate_single_loop_frame [of env a user n args st s]
  by simp

theorem generate_single_step_bypasses_limiters_witness:
  "rate_counters
     (snd (generate_single_iteration (env0 (Inr (EventStream [''x''])) (Some ''w1'') None)
            (app0 ''workflow'' False) ''u'' ''n1'' [] True (state0 3))) ''t1'' =
     Some \<lparr>window_count = 3, window_expires = 86400\<rparr>
   \<and> active_requests
       (snd (generate_single_loop (env0 (Inr (EventStream [''x''])) (Some ''w1'') None)
              (app0 ''workflow'' False) ''u'' ''n1'' [] True (state0 3))) ''a1'' = {''r0''}"
  using generate_single_step_bypasses_limiters
    [of "env0 (Inr (EventStream [''x''])) (Some ''w1'') None" "app0 ''workflow'' False"
      "''u''" "''n1''" "[]" True "state0 3"]
  by (simp add: state0_def)

section \<open>Releasing a ticket twice\<close>

text \<open>
  Claim C9: \<^verbatim>\<open>exit\<close> is idempotent. A second \<^verbatim>\<open>exit\<close> with the same token leaves the active
  sets as the first one left them; \<^verbatim>\<open>exit\<close> with a token that is not in the active set of the
  application leaves the active sets as they are; in both cases every other token is active
  afterwards exactly if it was before, and the counters of the rate limiter are untouched.
  The two releases that lines 124-129 of \<^verbatim>\<open>generate\<close> make on a request that is not
  streaming (one by the handler, one by the \<^verbatim>\<open>finally\<close> clause) leave the active sets as a
  single \<^verbatim>\<open>exit\<close> does. In the model \<^verbatim>\<open>exit\<close> is a total function to the new state, as its
  contract in the specification has no failure: that it never raises is its type.
\<close>

theorem exit_idempotent:
  "active_requests (exit rl t (exit rl t s)) = active_requests (exit rl t s)
   \<and> rate_counters (exit rl t (exit rl t s)) = rate_counters s
   \<and> (t \<notin> active_requests s (client_id rl) \<longrightarrow>
        active_requests (exit rl t s) = active_requests s)
   \<and> (\<forall>a t'. t' \<noteq> t \<longrightarrow>
        (t' \<in> active_requests (exit rl t s) a) = (t' \<in> active_requests s a))
   \<and> (\<forall>a t'. t' \<noteq> t \<longrightarrow>
        (t' \<in> active_requests (exit rl t (exit rl t s)) a) = (t' \<in> active_requests s a))
   \<and> active_requests
        (generate_finally False rl t (snd (generate_except rl t (Inl (ValueError m)) s))) =
       active_requests (exit rl t s)"
  by (auto simp add: fun_eq_iff)

theorem exit_idempotent_witness:
  "active_requests (exit (RateLimit ''a1'' 2) ''r9'' (state0 0)) ''a1'' = {''r0''}
   \<and> active_requests (exit (RateLimit ''a1'' 2) ''r0''
        (exit (RateLimit ''a1'' 2) ''r0'' (state0 0))) ''a1'' = {}"
proof -
  have h: "''r9'' \<notin> active_requests (state0 0) (client_id (RateLimit ''a1'' 2))"
    by (simp add: state0_def RateLimit_def)
  from exit_idempotent [of "RateLimit ''a1'' 2" "''r9''" "state0 0"] h
  have "active_requests (exit (RateLimit ''a1'' 2) ''r9'' (state0 0)) =
      active_requests (state0 0)"
    by blast
  moreover from exit_idempotent [of "RateLimit ''a1'' 2" "''r0''" "state0 0"]
  have "active_requests (exit (RateLimit ''a1'' 2) ''r0''
      (exit (RateLimit ''a1'' 2) ''r0'' (state0 0))) =
      active_requests (exit (RateLimit ''a1'' 2) ''r0'' (state0 0))"
    by blast
  ultimately show ?thesis
    by (simp add: state0_def RateLimit_def)
qed

section \<open>More like this\<close>

text \<open>
  Claim C10: \<^verbatim>\<open>generate_more_like_this\<close> returns (or raises) what the completion strategy's
  \<^verbatim>\<open>generate_more_like_this\<close> does, and the only call it makes is that one: whatever the
  billing state and the plan of the tenant are, no plan lookup, no rate-limit check, no
  increment, no \<^verbatim>\<open>enter\<close> and no \<^verbatim>\<open>exit\<close> is made, and the counters of the rate limiter
  and the active sets of the governor are unchanged.
\<close>

theorem generate_more_like_this_bypasses_limiters:
  "fst (generate_more_like_this env a user message_id i st s) =
     strategy env CompletionAppGenerator (GenerateMoreLikeThis a message_id user i st)
   \<and> new_events s (snd (generate_more_like_this env a user message_id i st s)) =
       [EvStrategy CompletionAppGenerator (GenerateMoreLikeThis a message_id user i st)]
   \<and> rate_counters (snd (generate_more_like_this env a user message_id i st s)) =
       rate_counters s
   \<and> active_requests (snd (generate_more_like_this env a user message_id i st s)) =
       active_requests s
   \<and> clock (snd (generate_more_like_this env a user message_id i st s)) = clock s"
  by (simp add: generate_more_like_this_def new_events_def)

theorem generate_more_like_this_bypasses_limiters_witness:
  "trace (snd (generate_more_like_this (env0 (Inr (EventStream [''x''])) None None)
                 (app0 ''completion'' False) ''u'' ''m1'' WEB_APP True (state0 3))) =
     [EvStrategy CompletionAppGenerator
        (GenerateMoreLikeThis (app0 ''completion'' False) ''m1'' ''u'' WEB_APP True)]
   \<and> active_requests
       (snd (generate_more_like_this (env0 (Inr (EventStream [''x''])) None None)
              (app0 ''completion'' False) ''u'' ''m1'' WEB_APP True (state0 3))) ''a1'' =
       {''r0''}"
  using generate_more_like_this_bypasses_limiters
    [of "env0 (Inr (EventStream [''x''])) None None" "app0 ''completion'' False"
      "''u''" "''m1''" WEB_APP True "state0 3"]
  by (simp add: new_events_def state0_def)

end
